theory Spec2Isabelle
  imports Complex_Main
begin

section \<open>Python values used by the tracker and the metrics engines\<close>

text \<open>
  Python floats and numpy floats are modelled as \<^typ>\<open>real\<close>: rounding is not
  modelled. Python integers that only count are \<^typ>\<open>nat\<close>. A position is
  the pair of its two coordinates.
\<close>

type_synonym pos = "real \<times> real"

datatype py_error = ZeroDivisionError | IndexError | KeyError | TypeError

text \<open>\<^verbatim>\<open>int(x)\<close> on a float truncates toward zero.\<close>

definition py_int :: "real \<Rightarrow> int" where
  "py_int r = (if 0 \<le> r then \<lfloor>r\<rfloor> else \<lceil>r\<rceil>)"

text \<open>
  \<^verbatim>\<open>collections.deque(maxlen=n).append(x)\<close>: when the deque already holds
  \<open>n\<close> items the leftmost one is discarded; with \<open>maxlen=0\<close> nothing is kept.
\<close>

definition deque_append :: "nat \<Rightarrow> 'a list \<Rightarrow> 'a \<Rightarrow> 'a list" where
  "deque_append maxlen xs x =
     (if maxlen = 0 then []
      else if length xs < maxlen then xs @ [x]
      else tl xs @ [x])"

section \<open>video\_processor.py: the Player class and its statistics\<close>

text \<open>
  The fields of \<^verbatim>\<open>Player\<close> that the code reads or writes after construction.
  The deques \<^verbatim>\<open>bbox_history\<close>, \<^verbatim>\<open>pose_history\<close>, \<^verbatim>\<open>confidence_history\<close> and
  \<^verbatim>\<open>appearance_features\<close> are created empty and never touched again;
  \<^verbatim>\<open>motion_features\<close> and \<^verbatim>\<open>pose_features\<close> are only appended to and never read.
  \<^verbatim>\<open>zone_presence\<close> is a dictionary that stays empty; it is kept as a map.
\<close>

record Player =
  player_id :: int
  positions :: "pos list"
  last_seen :: nat
  total_distance :: real
  avg_speed :: real
  max_speed :: real
  possession_frames :: nat
  zone_presence :: "string \<rightharpoonup> nat"

definition positions_maxlen :: nat where
  "positions_maxlen = 30"

definition Player_init :: "int \<Rightarrow> pos \<Rightarrow> Player" where
  "Player_init i initial_position =
     \<lparr> player_id = i,
       positions = deque_append positions_maxlen [] initial_position,
       last_seen = 0,
       total_distance = 0,
       avg_speed = 0,
       max_speed = 0,
       possession_frames = 0,
       zone_presence = Map.empty \<rparr>"

definition calculate_distance :: "pos \<Rightarrow> pos \<Rightarrow> real" where
  "calculate_distance pos1 pos2 =
     sqrt ((fst pos2 - fst pos1)\<^sup>2 + (snd pos2 - snd pos1)\<^sup>2)"

text \<open>
  \<^verbatim>\<open>_update_player_stats(player, new_position)\<close>; the first argument is
  \<^verbatim>\<open>self.frame_count\<close>, which the method stores in \<^verbatim>\<open>last_seen\<close>.
\<close>

definition update_player_stats :: "nat \<Rightarrow> Player \<Rightarrow> pos \<Rightarrow> Player" where
  "update_player_stats frame_count player new_position =
     (let player1 =
        (if length (positions player) > 0 then
           (let distance = calculate_distance (last (positions player)) new_position;
                speed = distance / 3
            in player
                 \<lparr> total_distance := total_distance player + distance,
                   avg_speed :=
                     (avg_speed player * real (length (positions player)) + speed)
                       / real (length (positions player) + 1),
                   max_speed := max (max_speed player) speed \<rparr>)
         else player)
      in player1
           \<lparr> positions := deque_append positions_maxlen (positions player1) new_position,
             last_seen := frame_count \<rparr>)"

text \<open>
  The entry of \<^verbatim>\<open>player_stats\<close> that \<^verbatim>\<open>process_video\<close> builds for one player
  once the video is read; \<open>frame_count\<close> is the number of decoded frames.
\<close>

record player_summary =
  total_frames :: nat
  summary_total_distance :: real
  summary_avg_speed :: real
  summary_max_speed :: real
  possession_percentage :: real
  summary_zone_presence :: "string \<rightharpoonup> nat"

definition player_stats_entry :: "nat \<Rightarrow> Player \<Rightarrow> player_summary" where
  "player_stats_entry frame_count player =
     \<lparr> total_frames = length (positions player),
       summary_total_distance = total_distance player,
       summary_avg_speed = avg_speed player,
       summary_max_speed = max_speed player,
       possession_percentage =
         (if frame_count > 0
          then (real (possession_frames player) / (real frame_count / 3)) * 100
          else 0),
       summary_zone_presence = zone_presence player \<rparr>"

definition player_stats :: "nat \<Rightarrow> (int \<rightharpoonup> Player) \<Rightarrow> (int \<rightharpoonup> player_summary)" where
  "player_stats frame_count players = (\<lambda>i. map_option (player_stats_entry frame_count) (players i))"

text \<open>
  A person track seen in one processed frame (the \<^verbatim>\<open>class_id == 0\<close> branch of
  \<^verbatim>\<open>process_video\<close>): the player is created at the first sighting, then
  \<^verbatim>\<open>_update_player_stats\<close> runs with the frame's centre.
\<close>

definition observe_player :: "nat \<Rightarrow> int \<Rightarrow> (int \<rightharpoonup> Player) \<Rightarrow> pos \<Rightarrow> (int \<rightharpoonup> Player)" where
  "observe_player frame_count track_id players center =
     (let players1 = (if players track_id = None
                      then players(track_id \<mapsto> Player_init track_id center)
                      else players)
      in case players1 track_id of
           None \<Rightarrow> players1
         | Some player \<Rightarrow> players1(track_id \<mapsto> update_player_stats frame_count player center))"

section \<open>video\_processor.py: association, occlusion and smoothing\<close>

text \<open>A bounding box \<^verbatim>\<open>(x1, y1, x2, y2)\<close>.\<close>

type_synonym box = "real \<times> real \<times> real \<times> real"

text \<open>
  \<^verbatim>\<open>_calculate_iou\<close>. The operands are numpy floats, so a zero denominator gives
  nan or inf and no exception; HOL's \<open>x / 0 = 0\<close> stands for that value.
\<close>

definition calculate_iou :: "box \<Rightarrow> box \<Rightarrow> real" where
  "calculate_iou box1 box2 =
     (case box1 of (a1, b1, c1, d1) \<Rightarrow>
      case box2 of (a2, b2, c2, d2) \<Rightarrow>
        (let x1 = max a1 a2; y1 = max b1 b2; x2 = min c1 c2; y2 = min d1 d2
         in if x2 < x1 \<or> y2 < y1 then 0
            else (let intersection = (x2 - x1) * (y2 - y1);
                      box1_area = (c1 - a1) * (d1 - b1);
                      box2_area = (c2 - a2) * (d2 - b2)
                  in intersection / (box1_area + box2_area - intersection))))"

text \<open>
  A value of \<^verbatim>\<open>yolo_boxes_current\<close>: the tuple
  \<^verbatim>\<open>(x1, y1, x2, y2, conf, cls)\<close>, with the appearance features as a seventh
  component when they could be extracted.
\<close>

record box_data =
  box_coords :: box
  box_conf :: real
  box_cls :: int
  box_features :: "real list option"

text \<open>
  The score of one detection for one track, as the inner loop of \<^verbatim>\<open>process_video\<close>
  computes it. \<open>cosine\<close> is \<^verbatim>\<open>scipy.spatial.distance.cosine\<close>, a library
  function taken as a parameter. An item is a pair of \<^verbatim>\<open>yolo_boxes_current.items()\<close>.
\<close>

definition match_score ::
  "(real list \<Rightarrow> real list \<Rightarrow> real) \<Rightarrow> (int \<rightharpoonup> real list) \<Rightarrow> int \<Rightarrow> box
     \<Rightarrow> box \<times> box_data \<Rightarrow> real" where
  "match_score cosine feature_history track_id ltrb item =
     (let iou = calculate_iou ltrb (fst item)
      in case box_features (snd item) of
           Some features \<Rightarrow>
             (case feature_history track_id of
                Some known \<Rightarrow> 0.7 * iou + 0.3 * (1 - cosine features known)
              | None \<Rightarrow> iou)
         | None \<Rightarrow> iou)"

text \<open>
  The search for the best box: \<^verbatim>\<open>max_score\<close> starts at the threshold 0.3 and
  \<^verbatim>\<open>best_box\<close> at \<^verbatim>\<open>None\<close>; a box replaces the best one when its score is
  strictly greater.
\<close>

fun best_box_loop ::
  "('a \<times> box_data \<Rightarrow> real) \<Rightarrow> real \<times> box_data option \<Rightarrow> ('a \<times> box_data) list
     \<Rightarrow> real \<times> box_data option" where
  "best_box_loop score acc [] = acc"
| "best_box_loop score (max_score, best_box) (item # items) =
     (if score item > max_score
      then best_box_loop score (score item, Some (snd item)) items
      else best_box_loop score (max_score, best_box) items)"

definition find_best_box ::
  "(real list \<Rightarrow> real list \<Rightarrow> real) \<Rightarrow> (int \<rightharpoonup> real list) \<Rightarrow> int \<Rightarrow> box
     \<Rightarrow> (box \<times> box_data) list \<Rightarrow> box_data option" where
  "find_best_box cosine feature_history track_id ltrb items =
     snd (best_box_loop (match_score cosine feature_history track_id ltrb) (0.3, None) items)"

text \<open>
  The association of one frame: every confirmed track, given as its id and its box
  \<^verbatim>\<open>to_ltrb()\<close>, runs the search over the same dictionary of detections.
\<close>

definition associate ::
  "(real list \<Rightarrow> real list \<Rightarrow> real) \<Rightarrow> (int \<rightharpoonup> real list) \<Rightarrow> (int \<times> box) list
     \<Rightarrow> (box \<times> box_data) list \<Rightarrow> (int \<times> box_data option) list" where
  "associate cosine feature_history tracks items =
     map (\<lambda>(track_id, ltrb). (track_id, find_best_box cosine feature_history track_id ltrb items))
       tracks"

text \<open>\<^verbatim>\<open>np.mean\<close> of a non-empty list of numbers.\<close>

definition np_mean :: "real list \<Rightarrow> real" where
  "np_mean xs = sum_list xs / real (length xs)"

definition predict_next_position :: "pos list \<Rightarrow> pos list \<Rightarrow> pos option" where
  "predict_next_position positions_list velocities =
     (if length positions_list < 2 \<or> length velocities < 1 then None
      else (let last_pos = last positions_list;
                avg_velocity = (np_mean (map fst velocities), np_mean (map snd velocities))
            in Some (fst last_pos + fst avg_velocity, snd last_pos + snd avg_velocity)))"

text \<open>The velocities \<^verbatim>\<open>_handle_occlusion\<close> collects: one \<^verbatim>\<open>(dx, dy)\<close> per step.\<close>

definition step_velocities :: "pos list \<Rightarrow> pos list" where
  "step_velocities ps =
     map (\<lambda>i. (fst (ps ! i) - fst (ps ! (i - 1)), snd (ps ! i) - snd (ps ! (i - 1))))
       [1 ..< length ps]"

text \<open>
  \<^verbatim>\<open>_handle_occlusion\<close>, on the two attributes it uses. It returns the new
  \<^verbatim>\<open>occlusion_history\<close> and the predicted position, if any. \<open>other_boxes\<close> are
  the items of the dictionary of the boxes of the players handled earlier in the frame.
\<close>

definition handle_occlusion ::
  "(int \<rightharpoonup> (int \<times> real) list) \<Rightarrow> (int \<rightharpoonup> Player) \<Rightarrow> int \<Rightarrow> box \<Rightarrow> (int \<times> box) list
     \<Rightarrow> (int \<rightharpoonup> (int \<times> real) list) \<times> pos option" where
  "handle_occlusion occlusion_history players track_id current_box other_boxes =
     (let before = (case occlusion_history track_id of None \<Rightarrow> [] | Some h \<Rightarrow> h);
          overlaps =
            map (\<lambda>(other_id, other_box). (other_id, calculate_iou current_box other_box))
              (filter (\<lambda>(other_id, other_box). calculate_iou current_box other_box > 0.3)
                 other_boxes);
          history = before @ overlaps
      in (occlusion_history(track_id \<mapsto> history),
          (if length history > 0 then
             (case players track_id of
                None \<Rightarrow> None
              | Some player \<Rightarrow>
                  if length (positions player) > 1
                  then predict_next_position (positions player)
                         (step_velocities (positions player))
                  else None)
           else None)))"

text \<open>
  The smoothing of \<^verbatim>\<open>process_video\<close>, applied to the last five entries
  \<^verbatim>\<open>(center, conf)\<close> of the track's history. A zero sum of confidences makes the
  division (or the \<^verbatim>\<open>int\<close> of its nan result) raise.
\<close>

definition smooth_center :: "(pos \<times> real) list \<Rightarrow> py_error + pos" where
  "smooth_center recent =
     (let ps = map fst recent; confidences = map snd recent
      in if sum_list confidences = 0 then Inl ZeroDivisionError
         else Inr
           (real_of_int (py_int
              (sum_list (map (\<lambda>((x, y), c). x * c) (zip ps confidences)) / sum_list confidences)),
            real_of_int (py_int
              (sum_list (map (\<lambda>((x, y), c). y * c) (zip ps confidences)) / sum_list confidences))))"

text \<open>\<^verbatim>\<open>xs[-5:]\<close>\<close>

definition last5 :: "'a list \<Rightarrow> 'a list" where
  "last5 xs = drop (length xs - 5) xs"

text \<open>
  The centre that \<^verbatim>\<open>process_video\<close> goes on with once \<^verbatim>\<open>(center, conf)\<close> has
  been appended to the track's history: \<open>history\<close> is the list after the append.
\<close>

definition smoothing_filter :: "(pos \<times> real) list \<Rightarrow> pos \<Rightarrow> py_error + pos" where
  "smoothing_filter history center =
     (if length history > 5 then smooth_center (last5 history) else Inr center)"

text \<open>
  The attributes of \<^verbatim>\<open>VideoProcessor\<close> that one processed track reads or writes.
\<close>

record tracker_state =
  self_players :: "int \<rightharpoonup> Player"
  self_frame_count :: nat
  self_ball_positions :: "pos list"
  self_track_history :: "int \<rightharpoonup> (pos \<times> real) list"
  self_occlusion_history :: "int \<rightharpoonup> (int \<times> real) list"
  self_feature_history :: "int \<rightharpoonup> real list"

text \<open>\<^verbatim>\<open>d[k] = v\<close> on the items of a dictionary, which keeps the insertion order.\<close>

fun dict_set :: "'k \<Rightarrow> 'v \<Rightarrow> ('k \<times> 'v) list \<Rightarrow> ('k \<times> 'v) list" where
  "dict_set k v [] = [(k, v)]"
| "dict_set k v ((k', v') # rest) =
     (if k' = k then (k, v) # rest else (k', v') # dict_set k v rest)"

text \<open>
  The body of the loop over the confirmed tracks, from the point where a best box was
  found, without the drawing and the frame's output record. The handler
  \<^verbatim>\<open>except Exception: continue\<close> around it keeps whatever was written before an
  exception: here the histories, when the smoothing raises.
  The result is the new state and the new \<^verbatim>\<open>other_boxes\<close>.
\<close>

definition process_track ::
  "tracker_state \<Rightarrow> int \<Rightarrow> int \<Rightarrow> box_data \<Rightarrow> (int \<times> box) list
     \<Rightarrow> tracker_state \<times> (int \<times> box) list" where
  "process_track st track_id class_id best_box other_boxes =
     (case box_coords best_box of (x1, y1, x2, y2) \<Rightarrow>
      (let conf = box_conf best_box;
           center0 = (real_of_int (py_int ((x1 + x2) / 2)), real_of_int (py_int ((y1 + y2) / 2)));
           (occlusion_history1, predicted_pos) =
              handle_occlusion (self_occlusion_history st) (self_players st) track_id
                (x1, y1, x2, y2) other_boxes;
           center1 = (case predicted_pos of Some p \<Rightarrow> p | None \<Rightarrow> center0);
           history =
              (case self_track_history st track_id of None \<Rightarrow> [] | Some h \<Rightarrow> h)
                @ [(center1, conf)];
           st1 = st \<lparr> self_occlusion_history := occlusion_history1,
                      self_track_history := (self_track_history st)(track_id \<mapsto> history),
                      self_feature_history :=
                        (case box_features best_box of
                           Some f \<Rightarrow> (self_feature_history st)(track_id \<mapsto> f)
                         | None \<Rightarrow> self_feature_history st) \<rparr>
       in case smoothing_filter history center1 of
            Inl err \<Rightarrow> (st1, other_boxes)
          | Inr center \<Rightarrow>
              if class_id = 0 then
                (st1 \<lparr> self_players :=
                         observe_player (self_frame_count st1) track_id (self_players st1) center \<rparr>,
                 dict_set track_id (x1, y1, x2, y2) other_boxes)
              else if class_id = 32 then
                (st1 \<lparr> self_ball_positions := self_ball_positions st1 @ [center] \<rparr>, other_boxes)
              else (st1, other_boxes)))"

text \<open>
  What \<^verbatim>\<open>process_video\<close> reads from a track of the external tracker:
  \<^verbatim>\<open>is_confirmed()\<close>, \<^verbatim>\<open>to_ltrb()\<close>, \<^verbatim>\<open>track_id\<close> and
  \<^verbatim>\<open>get_det_class()\<close>.
\<close>

record track =
  trk_confirmed :: bool
  trk_ltrb :: box
  trk_id :: int
  trk_class :: int

text \<open>
  One decoded frame. The detector and the tracker are external: what they return for
  the frame is the input, the tracks and the items of \<^verbatim>\<open>yolo_boxes_current\<close>.
  Only every third frame is processed; \<^verbatim>\<open>other_boxes\<close> starts empty in each
  processed frame.
\<close>

definition process_frame ::
  "(real list \<Rightarrow> real list \<Rightarrow> real) \<Rightarrow> track list \<times> (box \<times> box_data) list \<Rightarrow> tracker_state
     \<Rightarrow> tracker_state" where
  "process_frame cosine input st =
     (let st1 = st \<lparr> self_frame_count := self_frame_count st + 1 \<rparr>
      in if self_frame_count st1 mod 3 \<noteq> 0 then st1
         else fst (fold
                (\<lambda>t (s, other_boxes).
                   if \<not> trk_confirmed t then (s, other_boxes)
                   else (case find_best_box cosine (self_feature_history s) (trk_id t) (trk_ltrb t)
                                (snd input) of
                           None \<Rightarrow> (s, other_boxes)
                         | Some best_box \<Rightarrow>
                             process_track s (trk_id t) (trk_class t) best_box other_boxes))
                (fst input) (st1, [])))"

definition initial_state :: tracker_state where
  "initial_state =
     \<lparr> self_players = Map.empty,
       self_frame_count = 0,
       self_ball_positions = [],
       self_track_history = Map.empty,
       self_occlusion_history = Map.empty,
       self_feature_history = Map.empty \<rparr>"

text \<open>
  The state of a fresh \<^verbatim>\<open>VideoProcessor\<close> after the frame loop of
  \<^verbatim>\<open>process_video\<close>, and the \<^verbatim>\<open>player_stats\<close> it returns.
\<close>

definition run_frames ::
  "(real list \<Rightarrow> real list \<Rightarrow> real) \<Rightarrow> (track list \<times> (box \<times> box_data) list) list
     \<Rightarrow> tracker_state" where
  "run_frames cosine inputs = fold (process_frame cosine) inputs initial_state"

definition final_player_stats ::
  "(real list \<Rightarrow> real list \<Rightarrow> real) \<Rightarrow> (track list \<times> (box \<times> box_data) list) list
     \<Rightarrow> (int \<rightharpoonup> player_summary)" where
  "final_player_stats cosine inputs =
     (let st = run_frames cosine inputs
      in player_stats (self_frame_count st) (self_players st))"

section \<open>Frame records\<close>

text \<open>
  The per-frame dictionaries that \<^verbatim>\<open>process_video\<close> produces and the analyzers
  read. \<^verbatim>\<open>has_ball\<close> and \<^verbatim>\<open>team_id\<close> are keys the tactical analyzer reads with
  \<^verbatim>\<open>get\<close>; they may be absent.
\<close>

record player_data =
  pd_id :: int
  bbox :: box
  position :: pos
  confidence :: real
  has_ball :: "bool option"
  team_id :: "int option"

record ball_data =
  ball_bbox :: box
  ball_position :: pos
  ball_confidence :: real

record frame =
  frame_number :: nat
  players :: "player_data list"
  ball :: "ball_data option"

text \<open>
  A loop \<^verbatim>\<open>for i in range(1, len(fs))\<close> over \<^verbatim>\<open>fs[i-1], fs[i]\<close>, or
  \<^verbatim>\<open>for i in range(len(fs) - 1)\<close> over \<^verbatim>\<open>fs[i], fs[i+1]\<close>, visits the
  consecutive pairs in order.
\<close>

definition consecutive :: "'a list \<Rightarrow> ('a \<times> 'a) list" where
  "consecutive fs = zip fs (tl fs)"

text \<open>\<^verbatim>\<open>max\<close> of a non-empty list.\<close>

definition py_max :: "real list \<Rightarrow> real" where
  "py_max xs = fold max (tl xs) (hd xs)"

section \<open>physical\_analyzer.py\<close>

definition calculate_frame_distance :: "frame \<Rightarrow> frame \<Rightarrow> real" where
  "calculate_frame_distance prev_frame curr_frame =
     (if players prev_frame = [] \<or> players curr_frame = [] then 0
      else (let prev_pos = position (hd (players prev_frame));
                curr_pos = position (hd (players curr_frame))
            in sqrt ((fst curr_pos - fst prev_pos)\<^sup>2 + (snd curr_pos - snd prev_pos)\<^sup>2)))"

record distance_result =
  dist_total_distance :: real
  high_intensity_distance :: real
  sprint_distance :: real

definition distances_step :: "frame \<times> frame \<Rightarrow> distance_result \<Rightarrow> distance_result" where
  "distances_step pair acc =
     (let distance = calculate_frame_distance (fst pair) (snd pair);
          speed = distance * 30;
          acc1 = acc \<lparr> dist_total_distance := dist_total_distance acc + distance \<rparr>;
          acc2 = (if speed > 7
                  then acc1 \<lparr> high_intensity_distance := high_intensity_distance acc1 + distance \<rparr>
                  else acc1)
      in if speed > 8 then acc2 \<lparr> sprint_distance := sprint_distance acc2 + distance \<rparr>
         else acc2)"

definition calculate_distances :: "frame list \<Rightarrow> distance_result" where
  "calculate_distances player_frames =
     fold distances_step (consecutive player_frames)
       \<lparr> dist_total_distance = 0, high_intensity_distance = 0, sprint_distance = 0 \<rparr>"

record speed_zones =
  walking :: real
  jogging :: real
  running :: real
  sprinting :: real

record speed_result =
  speed_avg_speed :: real
  speed_max_speed :: real
  speed_zones_of :: speed_zones

definition speeds_step :: "frame \<times> frame \<Rightarrow> real list \<times> speed_zones \<Rightarrow> real list \<times> speed_zones" where
  "speeds_step pair acc =
     (let distance = calculate_frame_distance (fst pair) (snd pair);
          speed = distance * 30;
          speeds = fst acc @ [speed];
          zones = snd acc
      in if speed \<le> 2 then (speeds, zones \<lparr> walking := walking zones + 1 \<rparr>)
         else if speed \<le> 4 then (speeds, zones \<lparr> jogging := jogging zones + 1 \<rparr>)
         else if speed \<le> 7 then (speeds, zones \<lparr> running := running zones + 1 \<rparr>)
         else (speeds, zones \<lparr> sprinting := sprinting zones + 1 \<rparr>))"

definition calculate_speeds :: "frame list \<Rightarrow> speed_result" where
  "calculate_speeds player_frames =
     (let (speeds, counts) =
            fold speeds_step (consecutive player_frames)
              ([], \<lparr> walking = 0, jogging = 0, running = 0, sprinting = 0 \<rparr>);
          total_frames = walking counts + jogging counts + running counts + sprinting counts;
          zones = (if total_frames > 0
                   then \<lparr> walking = (walking counts / total_frames) * 100,
                          jogging = (jogging counts / total_frames) * 100,
                          running = (running counts / total_frames) * 100,
                          sprinting = (sprinting counts / total_frames) * 100 \<rparr>
                   else counts)
      in \<lparr> speed_avg_speed = (if speeds \<noteq> [] then np_mean speeds else 0),
           speed_max_speed = (if speeds \<noteq> [] then py_max speeds else 0),
           speed_zones_of = zones \<rparr>)"

record sprint_result =
  total_sprints :: nat
  avg_sprint_distance :: real
  max_sprint_distance :: real

text \<open>
  The state of the loop of \<^verbatim>\<open>_analyze_sprints\<close>:
  \<^verbatim>\<open>(sprint_distances, current_sprint, is_sprinting)\<close>.
\<close>

definition sprints_step ::
  "frame \<times> frame \<Rightarrow> real list \<times> real \<times> bool \<Rightarrow> real list \<times> real \<times> bool" where
  "sprints_step pair acc =
     (case acc of (sprint_distances, current_sprint, is_sprinting) \<Rightarrow>
        (let distance = calculate_frame_distance (fst pair) (snd pair);
             speed = distance * 30
         in if speed > 8 then (sprint_distances, current_sprint + distance, True)
            else if is_sprinting then
              ((if current_sprint > 0 then sprint_distances @ [current_sprint]
                else sprint_distances), 0, False)
            else (sprint_distances, current_sprint, is_sprinting)))"

definition sprint_distances_of :: "frame list \<Rightarrow> real list" where
  "sprint_distances_of player_frames =
     (case fold sprints_step (consecutive player_frames) ([], 0, False) of
        (sprint_distances, current_sprint, is_sprinting) \<Rightarrow>
          if current_sprint > 0 then sprint_distances @ [current_sprint] else sprint_distances)"

definition analyze_sprints :: "frame list \<Rightarrow> sprint_result" where
  "analyze_sprints player_frames =
     (let sprint_distances = sprint_distances_of player_frames
      in \<lparr> total_sprints = length sprint_distances,
           avg_sprint_distance = (if sprint_distances \<noteq> [] then np_mean sprint_distances else 0),
           max_sprint_distance = (if sprint_distances \<noteq> [] then py_max sprint_distances else 0) \<rparr>)"

record effort_zones =
  low :: real
  medium :: real
  high :: real

record effort_result =
  total_effort :: real
  effort_zones_of :: effort_zones

definition effort_step :: "frame \<times> frame \<Rightarrow> real \<times> effort_zones \<Rightarrow> real \<times> effort_zones" where
  "effort_step pair acc =
     (let distance = calculate_frame_distance (fst pair) (snd pair);
          speed = distance * 30;
          effort = min 100 ((speed / 9) * 100);
          total = fst acc + effort;
          zones = snd acc
      in if effort < 50 then (total, zones \<lparr> low := low zones + 1 \<rparr>)
         else if effort < 80 then (total, zones \<lparr> medium := medium zones + 1 \<rparr>)
         else (total, zones \<lparr> high := high zones + 1 \<rparr>))"

definition analyze_effort :: "frame list \<Rightarrow> effort_result" where
  "analyze_effort player_frames =
     (let (total, counts) =
            fold effort_step (consecutive player_frames) (0, \<lparr> low = 0, medium = 0, high = 0 \<rparr>);
          total_frames = low counts + medium counts + high counts;
          zones = (if total_frames > 0
                   then \<lparr> low = (low counts / total_frames) * 100,
                          medium = (medium counts / total_frames) * 100,
                          high = (high counts / total_frames) * 100 \<rparr>
                   else counts);
          avg_effort = (if player_frames \<noteq> [] then total / real (length player_frames) else 0)
      in \<lparr> total_effort = avg_effort, effort_zones_of = zones \<rparr>)"

record physical_result =
  distance :: distance_result
  speed :: speed_result
  sprints :: sprint_result
  effort :: effort_result

definition physical_empty_analysis :: physical_result where
  "physical_empty_analysis =
     \<lparr> distance = \<lparr> dist_total_distance = 0, high_intensity_distance = 0, sprint_distance = 0 \<rparr>,
       speed = \<lparr> speed_avg_speed = 0, speed_max_speed = 0,
                 speed_zones_of = \<lparr> walking = 0, jogging = 0, running = 0, sprinting = 0 \<rparr> \<rparr>,
       sprints = \<lparr> total_sprints = 0, avg_sprint_distance = 0, max_sprint_distance = 0 \<rparr>,
       effort = \<lparr> total_effort = 0, effort_zones_of = \<lparr> low = 0, medium = 0, high = 0 \<rparr> \<rparr> \<rparr>"

definition physical_analyze :: "frame list \<Rightarrow> physical_result" where
  "physical_analyze player_frames =
     (if player_frames = [] then physical_empty_analysis
      else \<lparr> distance = calculate_distances player_frames,
             speed = calculate_speeds player_frames,
             sprints = analyze_sprints player_frames,
             effort = analyze_effort player_frames \<rparr>)"

section \<open>technical\_analyzer.py\<close>

definition pass_threshold :: real where
  "pass_threshold = 0.7"

definition shot_threshold :: real where
  "shot_threshold = 0.8"

definition possession_threshold :: real where
  "possession_threshold = 2"

definition calculate_ball_movement :: "pos \<Rightarrow> pos \<Rightarrow> real" where
  "calculate_ball_movement pos1 pos2 =
     sqrt ((fst pos2 - fst pos1)\<^sup>2 + (snd pos2 - snd pos1)\<^sup>2)"

definition calculate_ball_velocity :: "pos \<Rightarrow> pos \<Rightarrow> real" where
  "calculate_ball_velocity pos1 pos2 = calculate_ball_movement pos1 pos2 * 30"

definition is_pass_successful :: "frame \<Rightarrow> frame \<Rightarrow> bool" where
  "is_pass_successful current_frame next_frame = True"

definition is_shot_on_target :: "pos \<Rightarrow> bool" where
  "is_shot_on_target ball_pos = True"

definition is_goal :: "pos \<Rightarrow> bool" where
  "is_goal ball_pos = True"

definition is_player_in_possession :: "pos \<Rightarrow> pos \<Rightarrow> bool" where
  "is_player_in_possession player_pos ball_pos =
     (calculate_ball_movement player_pos ball_pos < possession_threshold)"

record passes_data =
  total_passes :: nat
  successful_passes :: nat
  pass_accuracy :: real
  long_passes :: nat
  short_passes :: nat

definition passes_step :: "frame \<times> frame \<Rightarrow> passes_data \<Rightarrow> passes_data" where
  "passes_step pair acc =
     (case (ball (fst pair), ball (snd pair)) of
        (Some current_ball, Some next_ball) \<Rightarrow>
          (let ball_movement =
                 calculate_ball_movement (ball_position current_ball) (ball_position next_ball)
           in if ball_movement > pass_threshold then
                (let acc1 = acc \<lparr> total_passes := total_passes acc + 1 \<rparr>;
                     acc2 = (if ball_movement > 20
                             then acc1 \<lparr> long_passes := long_passes acc1 + 1 \<rparr>
                             else acc1 \<lparr> short_passes := short_passes acc1 + 1 \<rparr>)
                 in if is_pass_successful (fst pair) (snd pair)
                    then acc2 \<lparr> successful_passes := successful_passes acc2 + 1 \<rparr>
                    else acc2)
              else acc)
      | _ \<Rightarrow> acc)"

definition analyze_passes :: "frame list \<Rightarrow> passes_data" where
  "analyze_passes frames_data =
     (let acc = fold passes_step (consecutive frames_data)
                  \<lparr> total_passes = 0, successful_passes = 0, pass_accuracy = 0,
                    long_passes = 0, short_passes = 0 \<rparr>
      in if total_passes acc > 0
         then acc \<lparr> pass_accuracy :=
                      (real (successful_passes acc) / real (total_passes acc)) * 100 \<rparr>
         else acc)"

record shots_data =
  total_shots :: nat
  shots_on_target :: nat
  goals :: nat
  shot_accuracy :: real

definition shots_step :: "frame \<times> frame \<Rightarrow> shots_data \<Rightarrow> shots_data" where
  "shots_step pair acc =
     (case (ball (fst pair), ball (snd pair)) of
        (Some current_ball, Some next_ball) \<Rightarrow>
          (let ball_velocity =
                 calculate_ball_velocity (ball_position current_ball) (ball_position next_ball)
           in if ball_velocity > shot_threshold then
                (let acc1 = acc \<lparr> total_shots := total_shots acc + 1 \<rparr>
                 in if is_shot_on_target (ball_position next_ball) then
                      (let acc2 = acc1 \<lparr> shots_on_target := shots_on_target acc1 + 1 \<rparr>
                       in if is_goal (ball_position next_ball)
                          then acc2 \<lparr> goals := goals acc2 + 1 \<rparr>
                          else acc2)
                    else acc1)
              else acc)
      | _ \<Rightarrow> acc)"

definition analyze_shots :: "frame list \<Rightarrow> shots_data" where
  "analyze_shots frames_data =
     (let acc = fold shots_step (consecutive frames_data)
                  \<lparr> total_shots = 0, shots_on_target = 0, goals = 0, shot_accuracy = 0 \<rparr>
      in if total_shots acc > 0
         then acc \<lparr> shot_accuracy :=
                      (real (shots_on_target acc) / real (total_shots acc)) * 100 \<rparr>
         else acc)"

record possession_data =
  total_touches :: nat
  possession_duration :: real
  poss_possession_percentage :: real

definition possession_step :: "frame \<Rightarrow> possession_data \<Rightarrow> possession_data" where
  "possession_step fr acc =
     (case ball fr of
        Some b \<Rightarrow>
          fold (\<lambda>player a.
                  if is_player_in_possession (position player) (ball_position b)
                  then a \<lparr> total_touches := total_touches a + 1,
                           possession_duration := possession_duration a + 1 / 30 \<rparr>
                  else a)
            (players fr) acc
      | None \<Rightarrow> acc)"

definition analyze_possession :: "frame list \<Rightarrow> possession_data" where
  "analyze_possession frames_data =
     (let acc = fold possession_step frames_data
                  \<lparr> total_touches = 0, possession_duration = 0, poss_possession_percentage = 0 \<rparr>;
          total_duration = real (length frames_data) / 30
      in if total_duration > 0
         then acc \<lparr> poss_possession_percentage :=
                      (possession_duration acc / total_duration) * 100 \<rparr>
         else acc)"

record tackles_data =
  successful_tackles :: nat
  failed_tackles :: nat
  tackle_success_rate :: real

record interceptions_data =
  total_interceptions :: nat
  successful_interceptions :: nat

definition analyze_tackles :: "frame list \<Rightarrow> tackles_data" where
  "analyze_tackles frames_data =
     \<lparr> successful_tackles = 0, failed_tackles = 0, tackle_success_rate = 0 \<rparr>"

definition analyze_interceptions :: "frame list \<Rightarrow> interceptions_data" where
  "analyze_interceptions frames_data =
     \<lparr> total_interceptions = 0, successful_interceptions = 0 \<rparr>"

record technical_result =
  passes :: passes_data
  shots :: shots_data
  ball_possession :: possession_data
  tackles :: tackles_data
  interceptions :: interceptions_data

definition technical_analyze :: "frame list \<Rightarrow> technical_result" where
  "technical_analyze frames_data =
     \<lparr> passes = analyze_passes frames_data,
       shots = analyze_shots frames_data,
       ball_possession = analyze_possession frames_data,
       tackles = analyze_tackles frames_data,
       interceptions = analyze_interceptions frames_data \<rparr>"

section \<open>tactical\_analyzer.py\<close>

text \<open>
  Reading \<^verbatim>\<open>xs[i]\<close> with a non-negative index, and a loop whose body may raise: the
  first exception ends it.
\<close>

definition py_index :: "'a list \<Rightarrow> nat \<Rightarrow> py_error + 'a" where
  "py_index xs i = (if i < length xs then Inr (xs ! i) else Inl IndexError)"

fun fold_err :: "('a \<Rightarrow> 'b \<Rightarrow> py_error + 'b) \<Rightarrow> 'a list \<Rightarrow> 'b \<Rightarrow> py_error + 'b" where
  "fold_err f [] acc = Inr acc"
| "fold_err f (x # xs) acc = (case f x acc of Inl e \<Rightarrow> Inl e | Inr acc' \<Rightarrow> fold_err f xs acc')"

text \<open>
  An index into a numpy axis of length \<open>n\<close>: a negative index counts from the end,
  and an index outside \<open>[-n, n)\<close> raises.
\<close>

definition np_index :: "nat \<Rightarrow> int \<Rightarrow> py_error + nat" where
  "np_index n k =
     (if 0 \<le> k \<and> k < int n then Inr (nat k)
      else if - int n \<le> k \<and> k < 0 then Inr (nat (int n + k))
      else Inl IndexError)"

definition field_dimensions :: "real \<times> real" where
  "field_dimensions = (105, 68)"

text \<open>\<^verbatim>\<open>_create_field_zones\<close>: the items of the dictionary, in its order.\<close>

definition create_field_zones :: "(string \<times> box) list" where
  "create_field_zones =
     (case field_dimensions of (width, height) \<Rightarrow>
        [(''defensive_third'', (0, 0, width / 3, height)),
         (''middle_third'', (width / 3, 0, 2 * width / 3, height)),
         (''attacking_third'', (2 * width / 3, 0, width, height)),
         (''left_wing'', (0, 0, width, height / 3)),
         (''center'', (0, height / 3, width, 2 * height / 3)),
         (''right_wing'', (0, 2 * height / 3, width, height))])"

definition is_in_zone :: "pos \<Rightarrow> box \<Rightarrow> bool" where
  "is_in_zone p zone_bounds =
     (case p of (x, y) \<Rightarrow>
      case zone_bounds of (x1, y1, x2, y2) \<Rightarrow> x1 \<le> x \<and> x \<le> x2 \<and> y1 \<le> y \<and> y \<le> y2)"

text \<open>
  The loop of \<^verbatim>\<open>_create_heat_map\<close> over the positions, on a grid of 10 rows of 10
  cells.
\<close>

fun heat_map_loop :: "pos list \<Rightarrow> real list list \<Rightarrow> py_error + real list list" where
  "heat_map_loop [] hm = Inr hm"
| "heat_map_loop (p # ps) hm =
     (case field_dimensions of (width, height) \<Rightarrow>
      (let grid_x = min (py_int ((fst p / width) * 10)) 9;
           grid_y = min (py_int ((snd p / height) * 10)) 9
       in case np_index 10 grid_y of
            Inl e \<Rightarrow> Inl e
          | Inr gy \<Rightarrow>
              (case np_index 10 grid_x of
                 Inl e \<Rightarrow> Inl e
               | Inr gx \<Rightarrow> heat_map_loop ps (hm[gy := (hm ! gy)[gx := hm ! gy ! gx + 1]]))))"

definition create_heat_map :: "pos list \<Rightarrow> py_error + real list list" where
  "create_heat_map ps =
     (if ps = [] then Inr []
      else (case heat_map_loop ps (replicate 10 (replicate 10 0)) of
              Inl e \<Rightarrow> Inl e
            | Inr hm \<Rightarrow>
                (let m = py_max (concat hm)
                 in if m > 0 then Inr (map (map (\<lambda>v. v / m)) hm) else Inr hm)))"

record positioning_result =
  heat_map :: "real list list"
  zone_coverage :: "(string \<times> real) list"
  average_position :: pos

definition analyze_positioning :: "frame list \<Rightarrow> py_error + positioning_result" where
  "analyze_positioning player_frames =
     (let ps = map (\<lambda>f. position (hd (players f))) (filter (\<lambda>f. players f \<noteq> []) player_frames);
          zone_counts =
            map (\<lambda>(zone, bounds). (zone, length (filter (\<lambda>p. is_in_zone p bounds) ps)))
              create_field_zones;
          avg_pos = (if ps \<noteq> [] then (np_mean (map fst ps), np_mean (map snd ps)) else (0, 0));
          total_frames = length player_frames;
          coverage =
            map (\<lambda>(zone, count).
                   (zone, if total_frames > 0 then (real count / real total_frames) * 100 else 0))
              zone_counts
      in case create_heat_map ps of
           Inl e \<Rightarrow> Inl e
         | Inr hm \<Rightarrow>
             Inr \<lparr> heat_map = hm, zone_coverage = coverage, average_position = avg_pos \<rparr>)"

text \<open>\<^verbatim>\<open>player.get('has_ball', False)\<close>\<close>

definition get_has_ball :: "player_data \<Rightarrow> bool" where
  "get_has_ball player = (case has_ball player of Some b \<Rightarrow> b | None \<Rightarrow> False)"

text \<open>\<^verbatim>\<open>_has_ball\<close>\<close>

definition has_ball_of :: "frame \<Rightarrow> bool" where
  "has_ball_of f = (if players f = [] then False else get_has_ball (hd (players f)))"

definition is_successful_pass :: "frame \<Rightarrow> frame \<Rightarrow> bool" where
  "is_successful_pass start_frame end_frame =
     (if players start_frame = [] \<or> players end_frame = [] then False
      else list_ex
             (\<lambda>player. team_id player = team_id (hd (players start_frame)) \<and> get_has_ball player)
             (players end_frame))"

definition calculate_pass_distance :: "frame \<Rightarrow> frame \<Rightarrow> real" where
  "calculate_pass_distance start_frame end_frame =
     (if players start_frame = [] \<or> players end_frame = [] then 0
      else (case find get_has_ball (players end_frame) of
              None \<Rightarrow> 0
            | Some receiver \<Rightarrow>
                (let start_pos = position (hd (players start_frame));
                     end_pos = position receiver
                 in sqrt ((fst end_pos - fst start_pos)\<^sup>2 + (snd end_pos - snd start_pos)\<^sup>2))))"

datatype pass_direction = Forward | Backward | Lateral

definition calculate_pass_direction :: "frame \<Rightarrow> frame \<Rightarrow> pass_direction" where
  "calculate_pass_direction start_frame end_frame =
     (if players start_frame = [] \<or> players end_frame = [] then Lateral
      else (case find get_has_ball (players end_frame) of
              None \<Rightarrow> Lateral
            | Some receiver \<Rightarrow>
                (let start_pos = position (hd (players start_frame));
                     end_pos = position receiver;
                     dx = fst end_pos - fst start_pos;
                     dy = snd end_pos - snd start_pos
                 in if \<bar>dx\<bar> > \<bar>dy\<bar> then (if dx > 0 then Forward else Backward) else Lateral)))"

record pass_types =
  pt_short :: nat
  pt_medium :: nat
  pt_long :: nat

record pass_directions =
  forward :: nat
  backward :: nat
  lateral :: nat

record passing_result =
  tac_total_passes :: nat
  tac_successful_passes :: nat
  pass_types_of :: pass_types
  pass_directions_of :: pass_directions

text \<open>
  The body of the loop of \<^verbatim>\<open>_analyze_passing\<close> at index \<open>i\<close>; the accumulator
  is \<^verbatim>\<open>(len(passes), successful_passes, pass_types, pass_directions)\<close>.
\<close>

definition passing_step ::
  "frame list \<Rightarrow> frame list \<Rightarrow> nat \<Rightarrow> nat \<times> nat \<times> pass_types \<times> pass_directions
     \<Rightarrow> py_error + (nat \<times> nat \<times> pass_types \<times> pass_directions)" where
  "passing_step player_frames team_frames i acc =
     (case acc of (n_passes, successful, types, directions) \<Rightarrow>
        if has_ball_of (player_frames ! i) \<and> \<not> has_ball_of (player_frames ! (i + 1)) then
          (case py_index team_frames (i + 1) of
             Inl e \<Rightarrow> Inl e
           | Inr team_frame \<Rightarrow>
               if is_successful_pass (player_frames ! i) team_frame then
                 (let pass_distance = calculate_pass_distance (player_frames ! i) team_frame;
                      types1 =
                        (if pass_distance < 15 then types \<lparr> pt_short := pt_short types + 1 \<rparr>
                         else if pass_distance < 30 then types \<lparr> pt_medium := pt_medium types + 1 \<rparr>
                         else types \<lparr> pt_long := pt_long types + 1 \<rparr>);
                      directions1 =
                        (case calculate_pass_direction (player_frames ! i) team_frame of
                           Forward \<Rightarrow> directions \<lparr> forward := forward directions + 1 \<rparr>
                         | Backward \<Rightarrow> directions \<lparr> backward := backward directions + 1 \<rparr>
                         | Lateral \<Rightarrow> directions \<lparr> lateral := lateral directions + 1 \<rparr>)
                  in Inr (n_passes + 1, successful + 1, types1, directions1))
               else Inr acc)
        else Inr acc)"

definition analyze_passing :: "frame list \<Rightarrow> frame list \<Rightarrow> py_error + passing_result" where
  "analyze_passing player_frames team_frames =
     (case fold_err (passing_step player_frames team_frames) [0 ..< length player_frames - 1]
             (0, 0, \<lparr> pt_short = 0, pt_medium = 0, pt_long = 0 \<rparr>,
              \<lparr> forward = 0, backward = 0, lateral = 0 \<rparr>) of
        Inl e \<Rightarrow> Inl e
      | Inr (n_passes, successful, types, directions) \<Rightarrow>
          Inr \<lparr> tac_total_passes = n_passes, tac_successful_passes = successful,
                pass_types_of = types, pass_directions_of = directions \<rparr>)"

definition evaluate_team_positioning :: "pos \<Rightarrow> pos list \<Rightarrow> real" where
  "evaluate_team_positioning p team_positions =
     (if team_positions = [] then 0
      else (let team_center = (np_mean (map fst team_positions), np_mean (map snd team_positions));
                distance_to_center =
                  sqrt ((fst p - fst team_center)\<^sup>2 + (snd p - snd team_center)\<^sup>2);
                optimal_distance = 20
            in 1 - min 1 (\<bar>distance_to_center - optimal_distance\<bar> / optimal_distance)))"

definition calculate_available_space :: "pos \<Rightarrow> pos list \<Rightarrow> real" where
  "calculate_available_space p team_positions =
     (if team_positions = [] then 0
      else (let distances =
                  map (\<lambda>q. sqrt ((fst p - fst q)\<^sup>2 + (snd p - snd q)\<^sup>2)) team_positions;
                avg_distance = np_mean distances;
                optimal_distance = 15
            in 1 - min 1 (\<bar>avg_distance - optimal_distance\<bar> / optimal_distance)))"

definition evaluate_movement_quality :: "frame \<Rightarrow> frame \<Rightarrow> frame \<Rightarrow> real" where
  "evaluate_movement_quality prev_frame curr_frame team_frame =
     (if players prev_frame = [] \<or> players curr_frame = [] then 0
      else (let prev_pos = position (hd (players prev_frame));
                curr_pos = position (hd (players curr_frame));
                moved = sqrt ((fst curr_pos - fst prev_pos)\<^sup>2 + (snd curr_pos - snd prev_pos)\<^sup>2);
                team_positions = map position (players team_frame);
                positioning_score = evaluate_team_positioning curr_pos team_positions;
                score = (moved * 0.4) + (positioning_score * 0.6)
            in min 1 score))"

definition calculate_space_creation :: "frame \<Rightarrow> frame \<Rightarrow> frame \<Rightarrow> real" where
  "calculate_space_creation prev_frame curr_frame team_frame =
     (if players prev_frame = [] \<or> players curr_frame = [] then 0
      else (let prev_pos = position (hd (players prev_frame));
                curr_pos = position (hd (players curr_frame))
            in fold
                 (\<lambda>player created.
                    if pd_id player \<noteq> pd_id (hd (players prev_frame)) then
                      (let prev_distance =
                             sqrt ((fst (position player) - fst prev_pos)\<^sup>2
                                   + (snd (position player) - snd prev_pos)\<^sup>2);
                           curr_distance =
                             sqrt ((fst (position player) - fst curr_pos)\<^sup>2
                                   + (snd (position player) - snd curr_pos)\<^sup>2)
                       in created + max 0 (prev_distance - curr_distance))
                    else created)
                 (players team_frame) 0))"

definition is_support_run :: "frame \<Rightarrow> frame \<Rightarrow> frame \<Rightarrow> bool" where
  "is_support_run prev_frame curr_frame team_frame =
     (if players prev_frame = [] \<or> players curr_frame = [] then False
      else (case find get_has_ball (players team_frame) of
              None \<Rightarrow> False
            | Some ball_carrier \<Rightarrow>
                (let curr_pos = position (hd (players curr_frame));
                     ball_pos = position ball_carrier;
                     distance_to_ball =
                       sqrt ((fst curr_pos - fst ball_pos)\<^sup>2 + (snd curr_pos - snd ball_pos)\<^sup>2);
                     is_moving_forward = fst curr_pos > fst (position (hd (players prev_frame)));
                     is_in_support_range = 10 < distance_to_ball \<and> distance_to_ball < 30
                 in is_moving_forward \<and> is_in_support_range)))"

record off_ball_result =
  movement_score :: real
  space_creation :: real
  support_runs :: nat

definition off_ball_step ::
  "frame list \<Rightarrow> frame list \<Rightarrow> nat \<Rightarrow> real \<times> real \<times> nat \<Rightarrow> py_error + (real \<times> real \<times> nat)" where
  "off_ball_step player_frames team_frames i acc =
     (case acc of (score, creation, runs) \<Rightarrow>
        if \<not> has_ball_of (player_frames ! i) then
          (case py_index team_frames i of
             Inl e \<Rightarrow> Inl e
           | Inr team_frame \<Rightarrow>
               Inr (score + evaluate_movement_quality (player_frames ! i) (player_frames ! (i + 1))
                              team_frame,
                    creation + calculate_space_creation (player_frames ! i) (player_frames ! (i + 1))
                                 team_frame,
                    if is_support_run (player_frames ! i) (player_frames ! (i + 1)) team_frame
                    then runs + 1 else runs))
        else Inr acc)"

definition analyze_off_ball_movement :: "frame list \<Rightarrow> frame list \<Rightarrow> py_error + off_ball_result" where
  "analyze_off_ball_movement player_frames team_frames =
     (case fold_err (off_ball_step player_frames team_frames) [0 ..< length player_frames - 1]
             (0, 0, 0) of
        Inl e \<Rightarrow> Inl e
      | Inr (score, creation, runs) \<Rightarrow>
          (let total_frames = length player_frames
           in Inr \<lparr> movement_score = (if total_frames > 0 then score / real total_frames else score),
                    space_creation =
                      (if total_frames > 0 then creation / real total_frames else creation),
                    support_runs = runs \<rparr>))"

definition calculate_occupied_space :: "frame \<Rightarrow> frame \<Rightarrow> real" where
  "calculate_occupied_space fr team_frame =
     (if players fr = [] then 0
      else (let player_pos = position (hd (players fr))
            in fold
                 (\<lambda>player occupied.
                    if pd_id player \<noteq> pd_id (hd (players fr)) then
                      occupied + min 100
                        (sqrt ((fst (position player) - fst player_pos)\<^sup>2
                               + (snd (position player) - snd player_pos)\<^sup>2))
                    else occupied)
                 (players team_frame) 0))"

definition calculate_created_space :: "frame \<Rightarrow> frame \<Rightarrow> real" where
  "calculate_created_space fr team_frame =
     (if players fr = [] then 0
      else (let player_pos = position (hd (players fr))
            in fold
                 (\<lambda>player created.
                    if pd_id player \<noteq> pd_id (hd (players fr)) then
                      (let d = sqrt ((fst (position player) - fst player_pos)\<^sup>2
                                     + (snd (position player) - snd player_pos)\<^sup>2)
                       in if 10 < d \<and> d < 30 then created + (d - 10) else created)
                    else created)
                 (players team_frame) 0))"

definition evaluate_space_usage :: "frame \<Rightarrow> frame \<Rightarrow> real" where
  "evaluate_space_usage fr team_frame =
     (if players fr = [] then 0
      else (let player_pos = position (hd (players fr));
                team_positions = map position (players team_frame);
                positioning_score = evaluate_team_positioning player_pos team_positions;
                available_space = calculate_available_space player_pos team_positions;
                score = (positioning_score * 0.6) + (available_space * 0.4)
            in min 1 score))"

record space_result =
  space_score :: real
  space_created :: real
  space_occupied :: real

definition space_step ::
  "frame list \<Rightarrow> frame list \<Rightarrow> nat \<Rightarrow> real \<times> real \<times> real \<Rightarrow> py_error + (real \<times> real \<times> real)" where
  "space_step player_frames team_frames i acc =
     (case acc of (score, created, occupied) \<Rightarrow>
        (case py_index team_frames i of
           Inl e \<Rightarrow> Inl e
         | Inr team_frame \<Rightarrow>
             Inr (score + evaluate_space_usage (player_frames ! i) team_frame,
                  created + calculate_created_space (player_frames ! i) team_frame,
                  occupied + calculate_occupied_space (player_frames ! i) team_frame)))"

definition analyze_space_utilization :: "frame list \<Rightarrow> frame list \<Rightarrow> py_error + space_result" where
  "analyze_space_utilization player_frames team_frames =
     (case fold_err (space_step player_frames team_frames) [0 ..< length player_frames] (0, 0, 0) of
        Inl e \<Rightarrow> Inl e
      | Inr (score, created, occupied) \<Rightarrow>
          (let total_frames = length player_frames
           in if total_frames > 0
              then Inr \<lparr> space_score = score / real total_frames,
                         space_created = created / real total_frames,
                         space_occupied = occupied / real total_frames \<rparr>
              else Inr \<lparr> space_score = score, space_created = created, space_occupied = occupied \<rparr>))"

record tactical_result =
  positioning :: positioning_result
  passing :: passing_result
  off_ball_movement :: off_ball_result
  space_utilization :: space_result

definition tactical_empty_analysis :: tactical_result where
  "tactical_empty_analysis =
     \<lparr> positioning = \<lparr> heat_map = [], zone_coverage = [], average_position = (0, 0) \<rparr>,
       passing = \<lparr> tac_total_passes = 0, tac_successful_passes = 0,
                   pass_types_of = \<lparr> pt_short = 0, pt_medium = 0, pt_long = 0 \<rparr>,
                   pass_directions_of = \<lparr> forward = 0, backward = 0, lateral = 0 \<rparr> \<rparr>,
       off_ball_movement = \<lparr> movement_score = 0, space_creation = 0, support_runs = 0 \<rparr>,
       space_utilization = \<lparr> space_score = 0, space_created = 0, space_occupied = 0 \<rparr> \<rparr>"

text \<open>
  \<^verbatim>\<open>TacticalAnalyzer.analyze\<close>. An exception of a sub-analysis leaves the method; the
  sub-analyses run in the order of the source.
\<close>

definition tactical_analyze :: "frame list \<Rightarrow> frame list \<Rightarrow> py_error + tactical_result" where
  "tactical_analyze player_frames team_frames =
     (if player_frames = [] \<or> team_frames = [] then Inr tactical_empty_analysis
      else (case analyze_positioning player_frames of
              Inl e \<Rightarrow> Inl e
            | Inr pos_result \<Rightarrow>
                (case analyze_passing player_frames team_frames of
                   Inl e \<Rightarrow> Inl e
                 | Inr pass_result \<Rightarrow>
                     (case analyze_off_ball_movement player_frames team_frames of
                        Inl e \<Rightarrow> Inl e
                      | Inr off_ball \<Rightarrow>
                          (case analyze_space_utilization player_frames team_frames of
                             Inl e \<Rightarrow> Inl e
                           | Inr space \<Rightarrow>
                               Inr \<lparr> positioning = pos_result, passing = pass_result,
                                     off_ball_movement = off_ball,
                                     space_utilization = space \<rparr>)))))"

section \<open>Notions used to state the properties\<close>

text \<open>Every player of the tracker holds at most 30 positions.\<close>

definition positions_bounded :: "tracker_state \<Rightarrow> bool" where
  "positions_bounded st = (\<forall>i p. self_players st i = Some p \<longrightarrow> length (positions p) \<le> 30)"

text \<open>Every player of the tracker has a given property.\<close>

definition players_satisfy :: "(Player \<Rightarrow> bool) \<Rightarrow> tracker_state \<Rightarrow> bool" where
  "players_satisfy P st = (\<forall>i p. self_players st i = Some p \<longrightarrow> P p)"


text \<open>
  A detected pass: both frames have a ball and it moved by more than the threshold 0.7.
\<close>

definition detected_pass :: "frame \<times> frame \<Rightarrow> bool" where
  "detected_pass pair =
     (case (ball (fst pair), ball (snd pair)) of
        (Some b1, Some b2) \<Rightarrow> calculate_ball_movement (ball_position b1) (ball_position b2) > 0.7
      | _ \<Rightarrow> False)"

text \<open>The step distances of a sequence, and the instant speeds: distance times 30.\<close>

definition step_distances :: "frame list \<Rightarrow> real list" where
  "step_distances fs = map (\<lambda>pair. calculate_frame_distance (fst pair) (snd pair)) (consecutive fs)"

definition step_speeds :: "frame list \<Rightarrow> real list" where
  "step_speeds fs = map (\<lambda>pair. calculate_frame_distance (fst pair) (snd pair) * 30) (consecutive fs)"

definition spec_effort :: "real \<Rightarrow> real" where
  "spec_effort instant_speed = min 100 ((instant_speed / 9) * 100)"

text \<open>The share of the items of a list that satisfy a predicate, in percent; 0 for no items.\<close>

definition percentage_of :: "('a \<Rightarrow> bool) \<Rightarrow> 'a list \<Rightarrow> real" where
  "percentage_of P xs = (if xs = [] then 0 else real (length (filter P xs)) / real (length xs) * 100)"

text \<open>The speed zones as the specification bounds them.\<close>

datatype zone_name = Walking | Jogging | Running | Sprinting

fun in_speed_zone :: "zone_name \<Rightarrow> real \<Rightarrow> bool" where
  "in_speed_zone Walking v = (0 \<le> v \<and> v \<le> 2)"
| "in_speed_zone Jogging v = (2 < v \<and> v \<le> 4)"
| "in_speed_zone Running v = (4 < v \<and> v \<le> 7)"
| "in_speed_zone Sprinting v = (7 < v)"

text \<open>
  The sprints as the specification words them: the maximal runs of consecutive steps
  whose speed exceeds 8, each with the sum of its step distances.
\<close>

function sprint_runs :: "real list \<Rightarrow> real list" where
  "sprint_runs [] = []"
| "sprint_runs (d # ds) =
     (if d * 30 > 8
      then sum_list (takeWhile (\<lambda>x. x * 30 > 8) (d # ds)) # sprint_runs (dropWhile (\<lambda>x. x * 30 > 8) ds)
      else sprint_runs ds)"
  by pat_completeness auto
termination
  by (relation "measure length") (auto simp add: length_dropWhile_le le_imp_less_Suc)

text \<open>What the code does with the loop state of the sprint analysis after the loop.\<close>

definition finish_sprints :: "real list \<times> real \<times> bool \<Rightarrow> real list" where
  "finish_sprints st = (case st of (acc, cur, b) \<Rightarrow> if cur > 0 then acc @ [cur] else acc)"

text \<open>Concrete frame sequences: one player per frame, at the given position.\<close>

definition frame_at :: "nat \<Rightarrow> pos \<Rightarrow> frame" where
  "frame_at n p =
     \<lparr> frame_number = n,
       players = [\<lparr> pd_id = 1, bbox = (0, 0, 0, 0), position = p, confidence = 1,
                    has_ball = None, team_id = None \<rparr>],
       ball = None \<rparr>"

definition scenario_a :: "frame list" where
  "scenario_a = [frame_at 3 (0, 0), frame_at 6 (0, 0.1), frame_at 9 (0, 0.25), frame_at 12 (0, 0.45)]"

text \<open>Two fast steps, a standstill, and a fast step that ends the sequence.\<close>

definition scenario_sprint :: "frame list" where
  "scenario_sprint =
     [frame_at 3 (0, 0), frame_at 6 (0, 0.3), frame_at 9 (0, 0.6), frame_at 12 (0, 0.6),
      frame_at 15 (0, 1)]"

text \<open>Frames without players, with the ball at the given position.\<close>

definition ball_frame_at :: "nat \<Rightarrow> pos \<Rightarrow> frame" where
  "ball_frame_at n p =
     \<lparr> frame_number = n, players = [],
       ball = Some \<lparr> ball_bbox = (0, 0, 0, 0), ball_position = p, ball_confidence = 1 \<rparr> \<rparr>"

definition scenario_ball :: "frame list" where
  "scenario_ball = [ball_frame_at 3 (0, 0), ball_frame_at 6 (0, 1), ball_frame_at 9 (0, 1.5)]"

text \<open>
  One confirmed person track whose box coincides with the only detection of the
  frame; the same input is used for consecutive frames.
\<close>

definition one_track_input :: "track list \<times> (box \<times> box_data) list" where
  "one_track_input =
     ([\<lparr> trk_confirmed = True, trk_ltrb = (0, 0, 10, 10), trk_id = 1, trk_class = 0 \<rparr>],
      [((0, 0, 10, 10),
        \<lparr> box_coords = (0, 0, 10, 10), box_conf = 1, box_cls = 0, box_features = None \<rparr>)])"

text \<open>
  The detections that a frame's association assigns, and the matching being injective:
  no detection is assigned twice.
\<close>

definition assigned_detections :: "(int \<times> box_data option) list \<Rightarrow> box_data list" where
  "assigned_detections matching =
     concat (map (\<lambda>(t, d). case d of None \<Rightarrow> [] | Some b \<Rightarrow> [b]) matching)"

definition injective_matching :: "(int \<times> box_data option) list \<Rightarrow> bool" where
  "injective_matching matching = distinct (assigned_detections matching)"

text \<open>A detection without appearance features, and its item in the dictionary.\<close>

definition plain_box :: box_data where
  "plain_box = \<lparr> box_coords = (0, 0, 10, 10), box_conf = 0.9, box_cls = 0, box_features = None \<rparr>"

definition shared_detection :: "box \<times> box_data" where
  "shared_detection = ((0, 0, 10, 10), plain_box)"

text \<open>The centre of a detection: \<^verbatim>\<open>(int((x1 + x2) / 2), int((y1 + y2) / 2))\<close>.\<close>

definition raw_center :: "box_data \<Rightarrow> pos" where
  "raw_center b = (case box_coords b of (x1, y1, x2, y2) \<Rightarrow>
     (real_of_int (py_int ((x1 + x2) / 2)), real_of_int (py_int ((y1 + y2) / 2))))"




text \<open>
  The confidence-weighted mean of history entries, as the specification words it,
  without the truncation to integers.
\<close>

definition weighted_mean :: "(pos \<times> real) list \<Rightarrow> pos" where
  "weighted_mean recent =
     (sum_list (map (\<lambda>((x, y), c). x * c) recent) / sum_list (map snd recent),
      sum_list (map (\<lambda>((x, y), c). y * c) recent) / sum_list (map snd recent))"

text \<open>
  A track history of six entries whose newest centre moved by one pixel, and a
  tracker that holds the first five of them.
\<close>

definition jitter_history :: "(pos \<times> real) list" where
  "jitter_history =
     [((0, 0), 1), ((0, 0), 1), ((0, 0), 1), ((0, 0), 1), ((0, 0), 1), ((1, 0), 1)]"

definition five_frames_state :: tracker_state where
  "five_frames_state =
     initial_state \<lparr> self_track_history := [1 \<mapsto> take 5 jitter_history],
                     self_frame_count := 18 \<rparr>"





section \<open>The bounded position window\<close>

lemma length_deque_append:
  "length (deque_append n xs x) =
     (if n = 0 then 0 else if length xs < n then length xs + 1 else length xs)"
  by (cases xs) (auto simp add: deque_append_def)

lemma length_positions_update:
  "length (positions (update_player_stats fc p c)) =
     (if length (positions p) < 30 then length (positions p) + 1 else length (positions p))"
  by (simp add: update_player_stats_def Let_def length_deque_append positions_maxlen_def)

lemma positions_update:
  "positions (update_player_stats fc p c) =
     (if length (positions p) < 30 then positions p @ [c] else tl (positions p) @ [c])"
  by (simp add: update_player_stats_def Let_def deque_append_def positions_maxlen_def)

lemma positions_init: "positions (Player_init i c) = [c]"
  by (simp add: Player_init_def deque_append_def positions_maxlen_def)

section \<open>The effect of processing one track\<close>

lemma process_track_effect:
  assumes "process_track st t cl b obs = (st', obs')"
  shows "\<exists>h'. self_track_history st' t = Some h' \<and> h' \<noteq> []
           \<and> snd (last h') = box_conf b
           \<and> fst (last h') =
               (case snd (handle_occlusion (self_occlusion_history st) (self_players st) t
                            (box_coords b) obs) of
                  Some q \<Rightarrow> q | None \<Rightarrow> raw_center b)
           \<and> butlast h' = (case self_track_history st t of None \<Rightarrow> [] | Some h \<Rightarrow> h)
           \<and> (\<forall>e. smoothing_filter h' (fst (last h')) = Inl e \<longrightarrow> self_players st' = self_players st)
           \<and> (\<forall>c. smoothing_filter h' (fst (last h')) = Inr c \<longrightarrow>
                 self_players st' =
                   (if cl = 0 then observe_player (self_frame_count st) t (self_players st) c
                    else self_players st))"
  using assms
  unfolding process_track_def raw_center_def
  by (auto simp add: Let_def split: prod.splits sum.splits option.splits if_splits)

text \<open>
  A property of players that construction has and every update keeps holds for all
  players in every state of the frame loop.
\<close>

lemma observe_player_keeps:
  assumes "\<And>i c. P (Player_init i c)" and "\<And>fc p c. P p \<Longrightarrow> P (update_player_stats fc p c)"
    and "\<forall>i p. pls i = Some p \<longrightarrow> P p"
  shows "\<forall>i p. observe_player fc t pls c i = Some p \<longrightarrow> P p"
  using assms
  by (auto simp add: observe_player_def Let_def split: option.splits if_splits)

lemma process_track_keeps:
  assumes "\<And>i c. P (Player_init i c)" and "\<And>fc p c. P p \<Longrightarrow> P (update_player_stats fc p c)"
    and "players_satisfy P st"
  shows "players_satisfy P (fst (process_track st t cl b ob))"
proof -
  obtain st' ob' where pt: "process_track st t cl b ob = (st', ob')"
    by (cases "process_track st t cl b ob")
  from process_track_effect [OF pt] obtain h' where h:
    "\<forall>e. smoothing_filter h' (fst (last h')) = Inl e \<longrightarrow> self_players st' = self_players st"
    "\<forall>c. smoothing_filter h' (fst (last h')) = Inr c \<longrightarrow>
       self_players st' =
         (if cl = 0 then observe_player (self_frame_count st) t (self_players st) c
          else self_players st)"
    by auto
  have base: "\<forall>i p. self_players st i = Some p \<longrightarrow> P p"
    using assms(3) by (simp add: players_satisfy_def)
  show ?thesis
  proof (cases "smoothing_filter h' (fst (last h'))")
    case (Inl e)
    then show ?thesis using h(1) base by (simp add: pt players_satisfy_def)
  next
    case (Inr c)
    then show ?thesis
      using h(2) base observe_player_keeps [OF assms(1,2) base]
      by (simp add: pt players_satisfy_def)
  qed
qed

lemma track_loop_keeps:
  assumes "\<And>i c. P (Player_init i c)" and "\<And>fc p c. P p \<Longrightarrow> P (update_player_stats fc p c)"
  shows "players_satisfy P (fst acc) \<Longrightarrow>
   players_satisfy P (fst (fold
      (\<lambda>t (s, other_boxes).
         if \<not> trk_confirmed t then (s, other_boxes)
         else (case find_best_box cosine (self_feature_history s) (trk_id t) (trk_ltrb t) items of
                 None \<Rightarrow> (s, other_boxes)
               | Some best_box \<Rightarrow> process_track s (trk_id t) (trk_class t) best_box other_boxes))
      ts acc))"
proof (induction ts arbitrary: acc)
  case Nil
  then show ?case by simp
next
  case (Cons t ts)
  obtain s ob where acc: "acc = (s, ob)" by (cases acc)
  show ?case
    using Cons.prems process_track_keeps [OF assms]
    by (auto simp add: acc intro!: Cons.IH split: option.splits)
qed

lemma process_frame_keeps:
  assumes "\<And>i c. P (Player_init i c)" and "\<And>fc p c. P p \<Longrightarrow> P (update_player_stats fc p c)"
    and "players_satisfy P st"
  shows "players_satisfy P (process_frame cosine input st)"
proof -
  have b1: "players_satisfy P (st \<lparr> self_frame_count := self_frame_count st + 1 \<rparr>)"
    using assms(3) by (simp add: players_satisfy_def)
  show ?thesis
    unfolding process_frame_def Let_def
    using b1 track_loop_keeps [OF assms(1,2),
        of "(st \<lparr> self_frame_count := self_frame_count st + 1 \<rparr>, [])" cosine "snd input" "fst input"]
    by simp
qed

lemma run_frames_keeps:
  assumes "\<And>i c. P (Player_init i c)" and "\<And>fc p c. P p \<Longrightarrow> P (update_player_stats fc p c)"
  shows "players_satisfy P (run_frames cosine inputs)"
proof -
  have "players_satisfy P st \<Longrightarrow> players_satisfy P (fold (process_frame cosine) inputs st)" for st
    by (induction inputs arbitrary: st) (simp_all add: process_frame_keeps [OF assms])
  moreover have "players_satisfy P initial_state"
    by (simp add: players_satisfy_def initial_state_def)
  ultimately show ?thesis by (simp add: run_frames_def)
qed

lemma process_track_bounded:
  "positions_bounded st \<Longrightarrow> positions_bounded (fst (process_track st t cl b ob))"
  unfolding positions_bounded_def players_satisfy_def [symmetric]
  by (rule process_track_keeps) (simp_all add: positions_init length_positions_update)

lemma run_frames_bounded: "positions_bounded (run_frames cosine inputs)"
  unfolding positions_bounded_def players_satisfy_def [symmetric]
  by (rule run_frames_keeps) (simp_all add: positions_init length_positions_update)

lemma initial_bounded: "positions_bounded initial_state"
  by (simp add: positions_bounded_def initial_state_def)

text \<open>
  C9: every track's stored position list has length at most 30 at every point during
  processing, and the oldest position is evicted first once the bound is reached.
  The states after any number of decoded frames satisfy the bound; every processed
  track keeps it; and an update appends the new position, dropping the oldest one
  when 30 are stored.
\<close>

theorem positions_window_bounded:
  "positions_bounded (run_frames cosine inputs)
   \<and> (positions_bounded st \<longrightarrow> positions_bounded (fst (process_track st t cl b ob)))
   \<and> positions (update_player_stats fc p c) =
       (if length (positions p) < 30 then positions p @ [c] else tl (positions p) @ [c])"
  by (simp add: run_frames_bounded process_track_bounded positions_update)

lemma py_int_numeral: "py_int (numeral n) = numeral n" "py_int 0 = 0" "py_int 1 = 1"
  by (simp_all add: py_int_def)

lemma run_one_track:
  "map_option positions
     (self_players (run_frames (\<lambda>u v. 0) [one_track_input, one_track_input, one_track_input]) 1)
     = Some [(5, 5), (5, 5)]"
  by (simp add: run_frames_def process_frame_def initial_state_def one_track_input_def
      find_best_box_def match_score_def calculate_iou_def process_track_def handle_occlusion_def
      Let_def smoothing_filter_def observe_player_def positions_init positions_update
      py_int_numeral)

theorem positions_window_bounded_witness:
  "positions_bounded (run_frames (\<lambda>u v. 0) [one_track_input, one_track_input, one_track_input])
   \<and> map_option positions
        (self_players (run_frames (\<lambda>u v. 0) [one_track_input, one_track_input, one_track_input]) 1)
        = Some [(5, 5), (5, 5)]
   \<and> positions_bounded initial_state
   \<and> positions_bounded
        (fst (process_track initial_state 1 0
           \<lparr> box_coords = (0, 0, 10, 10), box_conf = 1, box_cls = 0, box_features = None \<rparr> []))
   \<and> positions
        (update_player_stats 3 ((Player_init 1 (0, 0)) \<lparr> positions := replicate 30 (0, 0) \<rparr>) (1, 1))
        = replicate 29 (0, 0) @ [(1, 1)]"
  using positions_window_bounded
    [of "\<lambda>u v. 0" "[one_track_input, one_track_input, one_track_input]" initial_state 1 0
      "\<lparr> box_coords = (0, 0, 10, 10), box_conf = 1, box_cls = 0, box_features = None \<rparr>" "[]"
      3 "(Player_init 1 (0, 0)) \<lparr> positions := replicate 30 (0, 0) \<rparr>" "(1, 1)"]
    initial_bounded run_one_track
  by (simp add: tl_replicate)

section \<open>The final possession percentage\<close>

lemma update_keeps_possession:
  "possession_frames (update_player_stats fc p c) = possession_frames p"
  by (simp add: update_player_stats_def Let_def)

text \<open>
  No method writes \<^verbatim>\<open>possession_frames\<close> after the constructor, so the summaries of a
  run of \<^verbatim>\<open>process_video\<close> on a fresh processor all report 0.
\<close>

lemma run_possession_zero:
  "final_player_stats cosine inputs i = Some s \<Longrightarrow> possession_percentage s = 0"
proof -
  assume a: "final_player_stats cosine inputs i = Some s"
  have "players_satisfy (\<lambda>p. possession_frames p = 0) (run_frames cosine inputs)"
    by (rule run_frames_keeps) (simp_all add: Player_init_def update_player_stats_def Let_def)
  then show ?thesis
    using a
    by (auto simp add: final_player_stats_def player_stats_def player_stats_entry_def
        players_satisfy_def Let_def)
qed

text \<open>
  The code's own formula: the possession frame count over a third of the number of
  decoded frames of the run, times 100.
\<close>

lemma possession_percentage_formula:
  assumes "pls i = Some p"
  shows "map_option possession_percentage (player_stats fc pls i) =
           Some (if fc = 0 then 0 else 300 * real (possession_frames p) / real fc)"
  using assms by (simp add: player_stats_def player_stats_entry_def)










section \<open>Passes of the technical analyzer\<close>

lemma passes_fold:
  "total_passes (fold passes_step ps acc) = total_passes acc + length (filter detected_pass ps)
   \<and> successful_passes (fold passes_step ps acc)
       = successful_passes acc + length (filter detected_pass ps)
   \<and> pass_accuracy (fold passes_step ps acc) = pass_accuracy acc"
proof (induction ps arbitrary: acc)
  case Nil
  then show ?case by simp
next
  case (Cons a ps)
  show ?case
    by (simp add: Cons.IH)
      (simp add: passes_step_def detected_pass_def pass_threshold_def is_pass_successful_def Let_def
        split: option.splits)
qed

lemma ball_movement_vertical: "calculate_ball_movement (x, y1) (x, y2) = \<bar>y2 - y1\<bar>"
  by (simp add: calculate_ball_movement_def)

text \<open>
  C10: every detected pass (a ball displacement above 0.7 between consecutive frames
  that both have a ball) is counted as successful: the successful passes equal the
  total passes, and the accuracy is 100 when there is a pass and 0 otherwise.
\<close>

theorem all_passes_successful:
  "total_passes (analyze_passes fs) = length (filter detected_pass (consecutive fs))
   \<and> successful_passes (analyze_passes fs) = total_passes (analyze_passes fs)
   \<and> pass_accuracy (analyze_passes fs) = (if total_passes (analyze_passes fs) > 0 then 100 else 0)"
  by (simp add: analyze_passes_def Let_def passes_fold)

theorem all_passes_successful_witness:
  "total_passes (analyze_passes scenario_ball) = 1
   \<and> successful_passes (analyze_passes scenario_ball) = 1
   \<and> pass_accuracy (analyze_passes scenario_ball) = 100"
  using all_passes_successful [of scenario_ball]
  by (simp add: scenario_ball_def ball_frame_at_def consecutive_def detected_pass_def
      ball_movement_vertical)

section \<open>The physical analyzer: shared facts\<close>

lemma frame_distance_nonneg: "0 \<le> calculate_frame_distance a b"
  by (simp add: calculate_frame_distance_def Let_def)

lemma frame_distance_vertical:
  "calculate_frame_distance (frame_at m (x, y1)) (frame_at n (x, y2)) = \<bar>y2 - y1\<bar>"
  by (simp add: calculate_frame_distance_def frame_at_def)

lemma percentage_of_map:
  "percentage_of P (map e xs) =
     (if xs = [] then 0 else real (length (filter (\<lambda>x. P (e x)) xs)) / real (length xs) * 100)"
  by (simp add: percentage_of_def filter_map comp_def)

lemma scenario_a_distances: "step_distances scenario_a = [1 / 10, 3 / 20, 1 / 5]"
  by (simp add: step_distances_def scenario_a_def consecutive_def frame_distance_vertical)

lemma scenario_a_speeds: "step_speeds scenario_a = [3, 9 / 2, 6]"
  by (simp add: step_speeds_def scenario_a_def consecutive_def frame_distance_vertical)

section \<open>Effort\<close>

lemma effort_step_eq:
  "effort_step pair acc =
     (fst acc + spec_effort (calculate_frame_distance (fst pair) (snd pair) * 30),
      if spec_effort (calculate_frame_distance (fst pair) (snd pair) * 30) < 50
      then (snd acc) \<lparr> low := low (snd acc) + 1 \<rparr>
      else if spec_effort (calculate_frame_distance (fst pair) (snd pair) * 30) < 80
      then (snd acc) \<lparr> medium := medium (snd acc) + 1 \<rparr>
      else (snd acc) \<lparr> high := high (snd acc) + 1 \<rparr>)"
  unfolding effort_step_def Let_def spec_effort_def [symmetric]
  by simp

lemma effort_fold:
  "fst (fold effort_step ps acc) =
     fst acc + sum_list (map (\<lambda>pair. spec_effort (calculate_frame_distance (fst pair) (snd pair) * 30)) ps)
   \<and> low (snd (fold effort_step ps acc)) =
       low (snd acc) + real (length (filter
         (\<lambda>pair. spec_effort (calculate_frame_distance (fst pair) (snd pair) * 30) < 50) ps))
   \<and> medium (snd (fold effort_step ps acc)) =
       medium (snd acc) + real (length (filter
         (\<lambda>pair. 50 \<le> spec_effort (calculate_frame_distance (fst pair) (snd pair) * 30)
            \<and> spec_effort (calculate_frame_distance (fst pair) (snd pair) * 30) < 80) ps))
   \<and> high (snd (fold effort_step ps acc)) =
       high (snd acc) + real (length (filter
         (\<lambda>pair. 80 \<le> spec_effort (calculate_frame_distance (fst pair) (snd pair) * 30)) ps))"
proof (induction ps arbitrary: acc)
  case Nil
  then show ?case by simp
next
  case (Cons a ps)
  show ?case
    apply (simp only: fold_simps o_apply Cons.IH)
    apply (simp add: effort_step_eq)
    done
qed

lemma three_way_count:
  "length (filter (\<lambda>x. e x < (50::real)) xs) + length (filter (\<lambda>x. 50 \<le> e x \<and> e x < 80) xs)
     + length (filter (\<lambda>x. 80 \<le> e x) xs) = length xs"
  by (induction xs) auto

lemma step_efforts_eq:
  "map spec_effort (step_speeds fs) =
     map (\<lambda>pair. spec_effort (calculate_frame_distance (fst pair) (snd pair) * 30)) (consecutive fs)"
  by (simp add: step_speeds_def)

text \<open>
  C4: with the per-step effort \<open>min(100, (instant_speed / 9) * 100)\<close>, the effort
  zones low (below 50), medium (from 50, below 80) and high (from 80) are reported as
  percentages of the number of steps, and \<open>total_effort\<close> is the sum of the per-step
  efforts divided by the number of frames of the sequence (0 for the empty sequence).
\<close>

theorem effort_analysis:
  "total_effort (analyze_effort fs) =
     (if fs = [] then 0 else sum_list (map spec_effort (step_speeds fs)) / real (length fs))
   \<and> low (effort_zones_of (analyze_effort fs))
       = percentage_of (\<lambda>e. e < 50) (map spec_effort (step_speeds fs))
   \<and> medium (effort_zones_of (analyze_effort fs))
       = percentage_of (\<lambda>e. 50 \<le> e \<and> e < 80) (map spec_effort (step_speeds fs))
   \<and> high (effort_zones_of (analyze_effort fs))
       = percentage_of (\<lambda>e. 80 \<le> e) (map spec_effort (step_speeds fs))"
proof -
  let ?e = "\<lambda>pair. spec_effort (calculate_frame_distance (fst pair) (snd pair) * 30)"
  let ?ps = "consecutive fs"
  let ?init = "(0, \<lparr> low = 0, medium = 0, high = 0 \<rparr>)"
  obtain total counts where f: "fold effort_step ?ps ?init = (total, counts)"
    by (cases "fold effort_step ?ps ?init")
  have ef: "total = sum_list (map ?e ?ps)"
    "low counts = real (length (filter (\<lambda>x. ?e x < 50) ?ps))"
    "medium counts = real (length (filter (\<lambda>x. 50 \<le> ?e x \<and> ?e x < 80) ?ps))"
    "high counts = real (length (filter (\<lambda>x. 80 \<le> ?e x) ?ps))"
    using effort_fold [of ?ps ?init] by (simp_all add: f)
  have tot: "low counts + medium counts + high counts = real (length ?ps)"
    unfolding ef using three_way_count [of ?e ?ps] by (simp only: of_nat_add [symmetric])
  have zero: "?ps = [] \<Longrightarrow> low counts = 0 \<and> medium counts = 0 \<and> high counts = 0"
    by (simp add: ef)
  have unf: "analyze_effort fs =
      \<lparr> total_effort = (if fs \<noteq> [] then total / real (length fs) else 0),
        effort_zones_of = (if ?ps \<noteq> []
          then \<lparr> low = (low counts / real (length ?ps)) * 100,
                 medium = (medium counts / real (length ?ps)) * 100,
                 high = (high counts / real (length ?ps)) * 100 \<rparr>
          else counts) \<rparr>"
    by (simp add: analyze_effort_def f tot Let_def)
  show ?thesis
    unfolding step_efforts_eq percentage_of_map unf
    using zero by (simp add: ef)
qed

theorem effort_analysis_witness:
  "map spec_effort (step_speeds scenario_a) = [100 / 3, 50, 200 / 3]
   \<and> length scenario_a = 4
   \<and> total_effort (analyze_effort scenario_a) = 150 / 4
   \<and> low (effort_zones_of (analyze_effort scenario_a)) = 100 / 3
   \<and> medium (effort_zones_of (analyze_effort scenario_a)) = 200 / 3
   \<and> high (effort_zones_of (analyze_effort scenario_a)) = 0"
  using effort_analysis [of scenario_a]
  by (simp add: scenario_a_speeds spec_effort_def percentage_of_def) (simp add: scenario_a_def)

section \<open>Speed zones\<close>

lemma speeds_step_eq:
  "speeds_step pair acc =
     (fst acc @ [calculate_frame_distance (fst pair) (snd pair) * 30],
      if calculate_frame_distance (fst pair) (snd pair) * 30 \<le> 2
      then (snd acc) \<lparr> walking := walking (snd acc) + 1 \<rparr>
      else if calculate_frame_distance (fst pair) (snd pair) * 30 \<le> 4
      then (snd acc) \<lparr> jogging := jogging (snd acc) + 1 \<rparr>
      else if calculate_frame_distance (fst pair) (snd pair) * 30 \<le> 7
      then (snd acc) \<lparr> running := running (snd acc) + 1 \<rparr>
      else (snd acc) \<lparr> sprinting := sprinting (snd acc) + 1 \<rparr>)"
  unfolding speeds_step_def Let_def
  by simp

lemma speeds_fold:
  "fst (fold speeds_step ps acc) =
     fst acc @ map (\<lambda>pair. calculate_frame_distance (fst pair) (snd pair) * 30) ps
   \<and> walking (snd (fold speeds_step ps acc)) =
       walking (snd acc) + real (length (filter
         (\<lambda>pair. calculate_frame_distance (fst pair) (snd pair) * 30 \<le> 2) ps))
   \<and> jogging (snd (fold speeds_step ps acc)) =
       jogging (snd acc) + real (length (filter
         (\<lambda>pair. 2 < calculate_frame_distance (fst pair) (snd pair) * 30
            \<and> calculate_frame_distance (fst pair) (snd pair) * 30 \<le> 4) ps))
   \<and> running (snd (fold speeds_step ps acc)) =
       running (snd acc) + real (length (filter
         (\<lambda>pair. 4 < calculate_frame_distance (fst pair) (snd pair) * 30
            \<and> calculate_frame_distance (fst pair) (snd pair) * 30 \<le> 7) ps))
   \<and> sprinting (snd (fold speeds_step ps acc)) =
       sprinting (snd acc) + real (length (filter
         (\<lambda>pair. 7 < calculate_frame_distance (fst pair) (snd pair) * 30) ps))"
proof (induction ps arbitrary: acc)
  case Nil
  then show ?case by simp
next
  case (Cons a ps)
  show ?case
    apply (simp only: fold_simps o_apply Cons.IH)
    apply (simp add: speeds_step_eq)
    done
qed

lemma four_way_count:
  "length (filter (\<lambda>x. v x \<le> (2::real)) xs) + length (filter (\<lambda>x. 2 < v x \<and> v x \<le> 4) xs)
     + length (filter (\<lambda>x. 4 < v x \<and> v x \<le> 7) xs) + length (filter (\<lambda>x. 7 < v x) xs)
   = length xs"
  by (induction xs) auto

lemma speed_zones_general:
  "walking (speed_zones_of (calculate_speeds fs))
     = percentage_of (in_speed_zone Walking) (step_speeds fs)
   \<and> jogging (speed_zones_of (calculate_speeds fs))
       = percentage_of (in_speed_zone Jogging) (step_speeds fs)
   \<and> running (speed_zones_of (calculate_speeds fs))
       = percentage_of (in_speed_zone Running) (step_speeds fs)
   \<and> sprinting (speed_zones_of (calculate_speeds fs))
       = percentage_of (in_speed_zone Sprinting) (step_speeds fs)"
proof -
  let ?v = "\<lambda>pair. calculate_frame_distance (fst pair) (snd pair) * 30"
  let ?ps = "consecutive fs"
  let ?init = "([], \<lparr> walking = 0, jogging = 0, running = 0, sprinting = 0 \<rparr>)"
  obtain speeds counts where f: "fold speeds_step ?ps ?init = (speeds, counts)"
    by (cases "fold speeds_step ?ps ?init")
  have ef: "speeds = map ?v ?ps"
    "walking counts = real (length (filter (\<lambda>x. ?v x \<le> 2) ?ps))"
    "jogging counts = real (length (filter (\<lambda>x. 2 < ?v x \<and> ?v x \<le> 4) ?ps))"
    "running counts = real (length (filter (\<lambda>x. 4 < ?v x \<and> ?v x \<le> 7) ?ps))"
    "sprinting counts = real (length (filter (\<lambda>x. 7 < ?v x) ?ps))"
    using speeds_fold [of ?ps ?init] by (simp_all add: f)
  have tot: "walking counts + jogging counts + running counts + sprinting counts
               = real (length ?ps)"
    unfolding ef using four_way_count [of ?v ?ps] by (simp only: of_nat_add [symmetric])
  have zero: "?ps = [] \<Longrightarrow>
      walking counts = 0 \<and> jogging counts = 0 \<and> running counts = 0 \<and> sprinting counts = 0"
    by (simp add: ef)
  have unf: "speed_zones_of (calculate_speeds fs) =
        (if ?ps \<noteq> []
          then \<lparr> walking = (walking counts / real (length ?ps)) * 100,
                 jogging = (jogging counts / real (length ?ps)) * 100,
                 running = (running counts / real (length ?ps)) * 100,
                 sprinting = (sprinting counts / real (length ?ps)) * 100 \<rparr>
          else counts)"
    by (simp add: calculate_speeds_def f tot Let_def)
  have nn: "\<And>x. (0 \<le> ?v x \<and> ?v x \<le> 2) = (?v x \<le> 2)"
    using frame_distance_nonneg by auto
  show ?thesis
    unfolding step_speeds_def percentage_of_map unf in_speed_zone.simps nn
    using zero by (simp add: ef)
qed

lemma exactly_one_zone: "0 \<le> v \<Longrightarrow> \<exists>!z. in_speed_zone z v"
proof -
  assume v: "0 \<le> v"
  consider "v \<le> 2" | "2 < v \<and> v \<le> 4" | "4 < v \<and> v \<le> 7" | "7 < v" by linarith
  then show ?thesis
  proof cases
    case 1
    show ?thesis
    proof (rule ex1I [of _ Walking])
      show "in_speed_zone Walking v" using v 1 by simp
    next
      fix z assume "in_speed_zone z v" then show "z = Walking" using 1 by (cases z) auto
    qed
  next
    case 2
    show ?thesis
    proof (rule ex1I [of _ Jogging])
      show "in_speed_zone Jogging v" using 2 by simp
    next
      fix z assume "in_speed_zone z v" then show "z = Jogging" using 2 by (cases z) auto
    qed
  next
    case 3
    show ?thesis
    proof (rule ex1I [of _ Running])
      show "in_speed_zone Running v" using 3 by simp
    next
      fix z assume "in_speed_zone z v" then show "z = Running" using 3 by (cases z) auto
    qed
  next
    case 4
    show ?thesis
    proof (rule ex1I [of _ Sprinting])
      show "in_speed_zone Sprinting v" using 4 by simp
    next
      fix z assume "in_speed_zone z v" then show "z = Sprinting" using 4 by (cases z) auto
    qed
  qed
qed

lemma step_speeds_nonneg: "v \<in> set (step_speeds fs) \<Longrightarrow> 0 \<le> v"
  by (auto simp add: step_speeds_def frame_distance_nonneg)

lemma scenario_a_zones:
  "speed_zones_of (calculate_speeds scenario_a) =
     \<lparr> walking = 0, jogging = 100 / 3, running = 200 / 3, sprinting = 0 \<rparr>"
  using speed_zones_general [of scenario_a]
  by (simp add: scenario_a_speeds percentage_of_def)

section \<open>Sprints\<close>

lemma sprints_step_eq:
  "sprints_step pair (acc, cur, b) =
     (if calculate_frame_distance (fst pair) (snd pair) * 30 > 8
      then (acc, cur + calculate_frame_distance (fst pair) (snd pair), True)
      else if b then ((if cur > 0 then acc @ [cur] else acc), 0, False)
      else (acc, cur, b))"
  by (simp add: sprints_step_def Let_def)

lemma sprints_fold:
  "(b \<longleftrightarrow> cur > 0) \<Longrightarrow> 0 \<le> cur \<Longrightarrow>
   finish_sprints (fold sprints_step ps (acc, cur, b)) =
     acc @ (if cur > 0
            then (cur + sum_list (takeWhile (\<lambda>x. x * 30 > 8)
                      (map (\<lambda>pair. calculate_frame_distance (fst pair) (snd pair)) ps)))
                   # sprint_runs (dropWhile (\<lambda>x. x * 30 > 8)
                       (map (\<lambda>pair. calculate_frame_distance (fst pair) (snd pair)) ps))
            else sprint_runs (map (\<lambda>pair. calculate_frame_distance (fst pair) (snd pair)) ps))"
proof (induction ps arbitrary: acc cur b)
  case Nil
  then show ?case by (simp add: finish_sprints_def)
next
  case (Cons a ps)
  let ?d = "calculate_frame_distance (fst a) (snd a)"
  let ?ds = "map (\<lambda>pair. calculate_frame_distance (fst pair) (snd pair)) ps"
  show ?case
  proof (cases "?d * 30 > 8")
    case True
    then have dpos: "0 < ?d" by simp
    have st: "sprints_step a (acc, cur, b) = (acc, cur + ?d, True)"
      using True by (simp add: sprints_step_eq)
    have pos: "0 < cur + ?d" using dpos Cons.prems by simp
    have "finish_sprints (fold sprints_step (a # ps) (acc, cur, b))
          = finish_sprints (fold sprints_step ps (acc, cur + ?d, True))"
      by (simp add: st)
    also have "\<dots> = acc @ ((cur + ?d + sum_list (takeWhile (\<lambda>x. x * 30 > 8) ?ds))
                   # sprint_runs (dropWhile (\<lambda>x. x * 30 > 8) ?ds))"
      using Cons.IH [of True "cur + ?d" acc] pos by simp
    finally show ?thesis
      using True Cons.prems by (simp add: add.assoc)
  next
    case False
    show ?thesis
    proof (cases b)
      case True
      then have cpos: "0 < cur" using Cons.prems by simp
      have st: "sprints_step a (acc, cur, b) = (acc @ [cur], 0, False)"
        using False True cpos by (simp add: sprints_step_eq)
      have "finish_sprints (fold sprints_step (a # ps) (acc, cur, b))
            = finish_sprints (fold sprints_step ps (acc @ [cur], 0, False))"
        by (simp add: st)
      also have "\<dots> = (acc @ [cur]) @ sprint_runs ?ds"
        using Cons.IH [of False 0 "acc @ [cur]"] by simp
      finally show ?thesis
        using False cpos by simp
    next
      case nb: False
      then have c0: "cur = 0" using Cons.prems by simp
      have st: "sprints_step a (acc, cur, b) = (acc, cur, b)"
        using False nb by (simp add: sprints_step_eq)
      have "finish_sprints (fold sprints_step (a # ps) (acc, cur, b))
            = finish_sprints (fold sprints_step ps (acc, cur, b))"
        by (simp add: st)
      also have "\<dots> = acc @ sprint_runs ?ds"
        using Cons.IH [of b cur acc] nb c0 by simp
      finally show ?thesis
        using False c0 by simp
    qed
  qed
qed

lemma sprint_distances_runs: "sprint_distances_of fs = sprint_runs (step_distances fs)"
  using sprints_fold [of False 0 "consecutive fs" "[]"]
  by (simp add: sprint_distances_of_def finish_sprints_def step_distances_def)

lemma py_max_Max: "xs \<noteq> [] \<Longrightarrow> py_max xs = Max (set xs)"
  by (cases xs) (simp_all add: py_max_def Max.set_eq_fold [symmetric])

lemma scenario_a_sprints: "total_sprints (analyze_sprints scenario_a) = 0"
  by (simp add: analyze_sprints_def Let_def sprint_distances_runs scenario_a_distances)

text \<open>
  C5: every step, with instant speed 30 times the Euclidean step distance, lies in
  exactly one of the zones walking \<open>[0,2]\<close>, jogging \<open>(2,4]\<close>, running \<open>(4,7]\<close> and
  sprinting \<open>(7,\<infinity>)\<close>, and each zone is reported as its percentage of the steps.
  The four frames at \<open>(0,0), (0,0.1), (0,0.25), (0,0.45)\<close> have the step speeds
  \<open>3, 4.5, 6\<close>, that is jogging, running, running, and no sprint.
\<close>

theorem speed_zone_classification:
  "(\<forall>v \<in> set (step_speeds fs). \<exists>!z. in_speed_zone z v)
   \<and> walking (speed_zones_of (calculate_speeds fs))
       = percentage_of (in_speed_zone Walking) (step_speeds fs)
   \<and> jogging (speed_zones_of (calculate_speeds fs))
       = percentage_of (in_speed_zone Jogging) (step_speeds fs)
   \<and> running (speed_zones_of (calculate_speeds fs))
       = percentage_of (in_speed_zone Running) (step_speeds fs)
   \<and> sprinting (speed_zones_of (calculate_speeds fs))
       = percentage_of (in_speed_zone Sprinting) (step_speeds fs)
   \<and> step_speeds scenario_a = [3, 9 / 2, 6]
   \<and> in_speed_zone Jogging 3 \<and> in_speed_zone Running (9 / 2) \<and> in_speed_zone Running 6
   \<and> speed_zones_of (calculate_speeds scenario_a)
       = \<lparr> walking = 0, jogging = 100 / 3, running = 200 / 3, sprinting = 0 \<rparr>
   \<and> total_sprints (analyze_sprints scenario_a) = 0"
  using speed_zones_general [of fs] exactly_one_zone step_speeds_nonneg [of _ fs]
  by (simp add: scenario_a_speeds scenario_a_zones scenario_a_sprints)

theorem speed_zone_classification_witness:
  "step_speeds scenario_sprint = [9, 9, 0, 12]
   \<and> (\<exists>!z. in_speed_zone z 9) \<and> (\<exists>!z. in_speed_zone z 0) \<and> (\<exists>!z. in_speed_zone z 12)
   \<and> speed_zones_of (calculate_speeds scenario_sprint)
       = \<lparr> walking = 25, jogging = 0, running = 0, sprinting = 75 \<rparr>"
proof -
  have sp: "step_speeds scenario_sprint = [9, 9, 0, 12]"
    by (simp add: step_speeds_def scenario_sprint_def consecutive_def frame_distance_vertical)
  show ?thesis
    using speed_zone_classification [of scenario_sprint]
    by (simp add: sp percentage_of_def)
qed

text \<open>
  C6: the sprint analysis finds the maximal runs of consecutive steps with instant
  speed above 8, each with the sum of its step distances, a run still open at the end
  of the sequence included, and reports their number, their mean and their maximum.
\<close>

theorem sprint_segmentation:
  "sprint_distances_of fs = sprint_runs (step_distances fs)
   \<and> total_sprints (analyze_sprints fs) = length (sprint_runs (step_distances fs))
   \<and> avg_sprint_distance (analyze_sprints fs) =
       (if sprint_runs (step_distances fs) = [] then 0
        else sum_list (sprint_runs (step_distances fs))
               / real (length (sprint_runs (step_distances fs))))
   \<and> max_sprint_distance (analyze_sprints fs) =
       (if sprint_runs (step_distances fs) = [] then 0
        else Max (set (sprint_runs (step_distances fs))))"
  by (simp add: analyze_sprints_def Let_def sprint_distances_runs np_mean_def py_max_Max)

theorem sprint_segmentation_witness:
  "step_distances scenario_sprint = [3 / 10, 3 / 10, 0, 2 / 5]
   \<and> sprint_distances_of scenario_sprint = [3 / 5, 2 / 5]
   \<and> total_sprints (analyze_sprints scenario_sprint) = 2
   \<and> avg_sprint_distance (analyze_sprints scenario_sprint) = 1 / 2
   \<and> max_sprint_distance (analyze_sprints scenario_sprint) = 3 / 5"
proof -
  have ds: "step_distances scenario_sprint = [3 / 10, 3 / 10, 0, 2 / 5]"
    by (simp add: step_distances_def scenario_sprint_def consecutive_def frame_distance_vertical)
  show ?thesis
    using sprint_segmentation [of scenario_sprint]
    by (simp add: ds)
qed

section \<open>Association of tracks and detections\<close>

lemma best_box_loop_sound:
  "best_box_loop score (m, bb) items = (m', bb') \<Longrightarrow>
     m \<le> m'
     \<and> (\<forall>it \<in> set items. score it \<le> m')
     \<and> ((bb' = bb \<and> m' = m) \<or> (\<exists>it \<in> set items. bb' = Some (snd it) \<and> score it = m' \<and> m < m'))"
proof (induction items arbitrary: m bb)
  case Nil
  then show ?case by simp
next
  case (Cons a items)
  show ?case
  proof (cases "score a > m")
    case True
    then have "best_box_loop score (score a, Some (snd a)) items = (m', bb')"
      using Cons.prems by simp
    from Cons.IH [OF this] True show ?thesis by auto
  next
    case False
    then have "best_box_loop score (m, bb) items = (m', bb')"
      using Cons.prems by simp
    from Cons.IH [OF this] False show ?thesis by auto
  qed
qed

lemma shared_scores:
  "match_score (\<lambda>u v. 0) Map.empty 1 (0, 0, 10, 10) shared_detection = 1"
  "match_score (\<lambda>u v. 0) Map.empty 2 (0, 0, 10, 8) shared_detection = 4 / 5"
  by (simp_all add: match_score_def shared_detection_def plain_box_def calculate_iou_def)

text \<open>
  C2 (as amended): in every frame each confirmed track is assigned at most one
  detection, chosen for that track alone: none when no detection scores above 0.3,
  otherwise a detection of the frame whose fused score exceeds 0.3 and is the highest
  of all. Matched detections are not removed, so the matching need not be injective.
\<close>

theorem association_per_track:
  "(find_best_box cosine fh t ltrb items = None
      \<longleftrightarrow> (\<forall>it \<in> set items. match_score cosine fh t ltrb it \<le> 0.3))
   \<and> (\<forall>b. find_best_box cosine fh t ltrb items = Some b \<longrightarrow>
        (\<exists>it \<in> set items. snd it = b \<and> 0.3 < match_score cosine fh t ltrb it
           \<and> (\<forall>it' \<in> set items.
                 match_score cosine fh t ltrb it' \<le> match_score cosine fh t ltrb it)))
   \<and> map fst (associate cosine fh tracks items) = map fst tracks"
proof -
  let ?score = "match_score cosine fh t ltrb"
  obtain m' bb' where l: "best_box_loop ?score (0.3, None) items = (m', bb')"
    by (cases "best_box_loop ?score (0.3, None) items")
  have fb: "find_best_box cosine fh t ltrb items = bb'"
    by (simp add: find_best_box_def l)
  note snd = best_box_loop_sound [OF l]
  have a: "bb' = None \<longleftrightarrow> (\<forall>it \<in> set items. ?score it \<le> 0.3)"
  proof
    assume "bb' = None"
    then show "\<forall>it \<in> set items. ?score it \<le> 0.3" using snd by auto
  next
    assume le: "\<forall>it \<in> set items. ?score it \<le> 0.3"
    show "bb' = None"
    proof (rule ccontr)
      assume "bb' \<noteq> None"
      then obtain it where "it \<in> set items" "?score it = m'" "0.3 < m'" using snd by auto
      then show False using le by fastforce
    qed
  qed
  have b: "\<forall>b. bb' = Some b \<longrightarrow>
        (\<exists>it \<in> set items. snd it = b \<and> 0.3 < ?score it \<and> (\<forall>it' \<in> set items. ?score it' \<le> ?score it))"
    using snd by auto
  have c: "map fst (associate cosine fh tracks items) = map fst tracks"
    by (simp add: associate_def comp_def case_prod_unfold)
  show ?thesis using a b c by (simp only: fb) 
qed

theorem association_per_track_witness:
  "find_best_box (\<lambda>u v. 0) Map.empty 2 (0, 0, 10, 8) [shared_detection] = Some (snd shared_detection)
   \<and> match_score (\<lambda>u v. 0) Map.empty 2 (0, 0, 10, 8) shared_detection = 4 / 5
   \<and> find_best_box (\<lambda>u v. 0) Map.empty 3 (20, 20, 30, 30) [shared_detection] = None
   \<and> map fst (associate (\<lambda>u v. 0) Map.empty [(1, (0, 0, 10, 10)), (2, (0, 0, 10, 8))] [shared_detection])
       = [1, 2]"
  using association_per_track [of "\<lambda>u v. 0" Map.empty 2 "(0, 0, 10, 8)" "[shared_detection]"
      "[(1, (0, 0, 10, 10)), (2, (0, 0, 10, 8))]"]
    association_per_track [of "\<lambda>u v. 0" Map.empty 3 "(20, 20, 30, 30)" "[shared_detection]" "[]"]
  by (simp add: shared_scores find_best_box_def)
    (simp add: match_score_def shared_detection_def plain_box_def calculate_iou_def)

text \<open>
  C2 as stated fails: two tracks whose boxes both overlap the only detection of the
  frame are both assigned that detection.
\<close>

theorem association_counterexample:
  "\<not> injective_matching
       (associate (\<lambda>u v. 0) Map.empty [(1, (0, 0, 10, 10)), (2, (0, 0, 10, 8))] [shared_detection])"
  by (simp add: injective_matching_def assigned_detections_def associate_def find_best_box_def
      shared_scores)

section \<open>Occlusion\<close>



lemma handle_occlusion_quiet:
  "occ t = None \<or> occ t = Some [] \<Longrightarrow> \<forall>ob \<in> set obs. \<not> calculate_iou bx (snd ob) > 0.3 \<Longrightarrow>
   snd (handle_occlusion occ pls t bx obs) = None"
  by (fastforce simp add: handle_occlusion_def Let_def filter_empty_conv case_prod_unfold)




















section \<open>Smoothing\<close>

lemma smooth_center_eq:
  "sum_list (map snd recent) \<noteq> 0 \<Longrightarrow>
   smooth_center recent =
     Inr (real_of_int (py_int (fst (weighted_mean recent))),
          real_of_int (py_int (snd (weighted_mean recent))))"
  by (simp add: smooth_center_def weighted_mean_def Let_def zip_map_fst_snd)

lemma smooth_center_zero:
  "sum_list (map snd recent) = 0 \<Longrightarrow> smooth_center recent = Inl ZeroDivisionError"
  by (simp add: smooth_center_def Let_def)

lemma last5_props:
  "5 < length h \<Longrightarrow> length (last5 h) = 5 \<and> last (last5 h) = last h"
  by (simp add: last5_def)

lemma py_int_close: "\<bar>real_of_int (py_int r) - r\<bar> < 1"
  unfolding py_int_def by (auto simp add: abs_if) linarith+

lemma observe_last:
  "\<exists>q. observe_player fc t pls c t = Some q \<and> last (positions q) = c"
  by (cases "pls t") (simp_all add: observe_player_def Let_def positions_update)

text \<open>
  C7 (as amended): once the track's history, the newest entry included, has more than
  5 entries, the newest raw position is replaced by the confidence-weighted mean of
  the last 5 entries with each coordinate truncated toward zero to an integer (less
  than 1 away from the mean), provided the confidences do not sum to 0; with 5 or
  fewer entries the raw position is kept. The position that results is the one
  committed to the player's position history.
\<close>

theorem smoothing_filter_contract:
  "(length history \<le> 5 \<longrightarrow> smoothing_filter history center = Inr center)
   \<and> (5 < length history \<longrightarrow> length (last5 history) = 5 \<and> last (last5 history) = last history)
   \<and> (5 < length history \<and> sum_list (map snd (last5 history)) \<noteq> 0 \<longrightarrow>
        smoothing_filter history center =
          Inr (real_of_int (py_int (fst (weighted_mean (last5 history)))),
               real_of_int (py_int (snd (weighted_mean (last5 history))))))
   \<and> \<bar>real_of_int (py_int (fst (weighted_mean (last5 history)))) - fst (weighted_mean (last5 history))\<bar> < 1
   \<and> \<bar>real_of_int (py_int (snd (weighted_mean (last5 history)))) - snd (weighted_mean (last5 history))\<bar> < 1
   \<and> (process_track st t 0 b obs = (st', obs') \<longrightarrow>
        (\<exists>h'. self_track_history st' t = Some h' \<and> h' \<noteq> []
           \<and> (\<forall>c. smoothing_filter h' (fst (last h')) = Inr c \<longrightarrow>
                 (\<exists>q. self_players st' t = Some q \<and> last (positions q) = c))))"
proof -
  have a: "length history \<le> 5 \<longrightarrow> smoothing_filter history center = Inr center"
    by (simp add: smoothing_filter_def)
  have c: "5 < length history \<and> sum_list (map snd (last5 history)) \<noteq> 0 \<longrightarrow>
        smoothing_filter history center =
          Inr (real_of_int (py_int (fst (weighted_mean (last5 history)))),
               real_of_int (py_int (snd (weighted_mean (last5 history)))))"
    by (simp add: smoothing_filter_def smooth_center_eq)
  have d: "process_track st t 0 b obs = (st', obs') \<longrightarrow>
        (\<exists>h'. self_track_history st' t = Some h' \<and> h' \<noteq> []
           \<and> (\<forall>c. smoothing_filter h' (fst (last h')) = Inr c \<longrightarrow>
                 (\<exists>q. self_players st' t = Some q \<and> last (positions q) = c)))"
  proof
    assume pt: "process_track st t 0 b obs = (st', obs')"
    from process_track_effect [OF pt] obtain h' where h:
      "self_track_history st' t = Some h'" "h' \<noteq> []"
      "\<forall>c. smoothing_filter h' (fst (last h')) = Inr c \<longrightarrow>
         self_players st' = observe_player (self_frame_count st) t (self_players st) c"
      by auto
    show "\<exists>h'. self_track_history st' t = Some h' \<and> h' \<noteq> []
           \<and> (\<forall>c. smoothing_filter h' (fst (last h')) = Inr c \<longrightarrow>
                 (\<exists>q. self_players st' t = Some q \<and> last (positions q) = c))"
      using h observe_last by (intro exI [of _ h']) auto
  qed
  show ?thesis
    using a c d last5_props [of history] py_int_close by blast
qed

lemma five_frames_step:
  "map_option positions (self_players (fst (process_track five_frames_state 1 0 plain_box [])) 1)
     = Some [(0, 0), (0, 0)]"
  by (simp add: five_frames_state_def initial_state_def plain_box_def jitter_history_def
      process_track_def handle_occlusion_def Let_def smoothing_filter_def last5_def
      smooth_center_def observe_player_def positions_init positions_update py_int_def)

theorem smoothing_filter_contract_witness:
  "smoothing_filter (take 5 jitter_history) (0, 0) = Inr (0, 0)
   \<and> length (last5 jitter_history) = 5
   \<and> weighted_mean (last5 jitter_history) = (1 / 5, 0)
   \<and> smoothing_filter jitter_history (1, 0) = Inr (0, 0)
   \<and> map_option positions (self_players (fst (process_track five_frames_state 1 0 plain_box [])) 1)
       = Some [(0, 0), (0, 0)]"
  using smoothing_filter_contract [of "take 5 jitter_history" "(0, 0)" five_frames_state 1 plain_box "[]"
      "fst (process_track five_frames_state 1 0 plain_box [])"
      "snd (process_track five_frames_state 1 0 plain_box [])"]
    smoothing_filter_contract [of jitter_history "(1, 0)" five_frames_state 1 plain_box "[]"
      "fst (process_track five_frames_state 1 0 plain_box [])"
      "snd (process_track five_frames_state 1 0 plain_box [])"]
    five_frames_step
  by (simp add: jitter_history_def last5_def weighted_mean_def py_int_def)

text \<open>
  C7 as stated fails: for five centres at \<open>(0,0)\<close> followed by one at \<open>(1,0)\<close>, all
  with confidence 1, the weighted mean of the last five is \<open>(0.2, 0)\<close>, and the filter
  returns \<open>(0, 0)\<close>.
\<close>

theorem smoothing_filter_counterexample:
  "smoothing_filter jitter_history (1, 0) \<noteq> Inr (weighted_mean (last5 jitter_history))"
  by (simp add: smoothing_filter_def jitter_history_def last5_def smooth_center_def
      weighted_mean_def py_int_def)

section \<open>The empty sequence\<close>

lemma unguarded_empty:
  "calculate_distances [] = distance physical_empty_analysis
   \<and> calculate_speeds [] = speed physical_empty_analysis
   \<and> analyze_sprints [] = sprints physical_empty_analysis
   \<and> analyze_effort [] = effort physical_empty_analysis"
  by (simp add: physical_empty_analysis_def calculate_distances_def calculate_speeds_def
      analyze_sprints_def sprint_distances_of_def analyze_effort_def consecutive_def)

text \<open>
  C8: for the empty Player Frame Sequence the physical, the tactical and the technical
  analyzer each return their all-zero result, and none raises.
\<close>

theorem empty_sequence_results:
  "physical_analyze [] =
     \<lparr> distance = \<lparr> dist_total_distance = 0, high_intensity_distance = 0, sprint_distance = 0 \<rparr>,
       speed = \<lparr> speed_avg_speed = 0, speed_max_speed = 0,
                 speed_zones_of = \<lparr> walking = 0, jogging = 0, running = 0, sprinting = 0 \<rparr> \<rparr>,
       sprints = \<lparr> total_sprints = 0, avg_sprint_distance = 0, max_sprint_distance = 0 \<rparr>,
       effort = \<lparr> total_effort = 0, effort_zones_of = \<lparr> low = 0, medium = 0, high = 0 \<rparr> \<rparr> \<rparr>
   \<and> tactical_analyze [] team_frames =
       Inr \<lparr> positioning = \<lparr> heat_map = [], zone_coverage = [], average_position = (0, 0) \<rparr>,
             passing = \<lparr> tac_total_passes = 0, tac_successful_passes = 0,
                         pass_types_of = \<lparr> pt_short = 0, pt_medium = 0, pt_long = 0 \<rparr>,
                         pass_directions_of = \<lparr> forward = 0, backward = 0, lateral = 0 \<rparr> \<rparr>,
             off_ball_movement = \<lparr> movement_score = 0, space_creation = 0, support_runs = 0 \<rparr>,
             space_utilization = \<lparr> space_score = 0, space_created = 0, space_occupied = 0 \<rparr> \<rparr>
   \<and> technical_analyze [] =
       \<lparr> passes = \<lparr> total_passes = 0, successful_passes = 0, pass_accuracy = 0,
                    long_passes = 0, short_passes = 0 \<rparr>,
         shots = \<lparr> total_shots = 0, shots_on_target = 0, goals = 0, shot_accuracy = 0 \<rparr>,
         ball_possession = \<lparr> total_touches = 0, possession_duration = 0,
                             poss_possession_percentage = 0 \<rparr>,
         tackles = \<lparr> successful_tackles = 0, failed_tackles = 0, tackle_success_rate = 0 \<rparr>,
         interceptions = \<lparr> total_interceptions = 0, successful_interceptions = 0 \<rparr> \<rparr>"
  by (simp add: physical_analyze_def physical_empty_analysis_def tactical_analyze_def
      tactical_empty_analysis_def technical_analyze_def analyze_passes_def analyze_shots_def
      analyze_possession_def analyze_tackles_def analyze_interceptions_def consecutive_def)

theorem empty_sequence_results_witness:
  "distance (physical_analyze []) =
     \<lparr> dist_total_distance = 0, high_intensity_distance = 0, sprint_distance = 0 \<rparr>
   \<and> map_sum id passing (tactical_analyze [] scenario_a) =
       Inr \<lparr> tac_total_passes = 0, tac_successful_passes = 0,
             pass_types_of = \<lparr> pt_short = 0, pt_medium = 0, pt_long = 0 \<rparr>,
             pass_directions_of = \<lparr> forward = 0, backward = 0, lateral = 0 \<rparr> \<rparr>
   \<and> passes (technical_analyze []) =
       \<lparr> total_passes = 0, successful_passes = 0, pass_accuracy = 0,
         long_passes = 0, short_passes = 0 \<rparr>"
  using empty_sequence_results [of scenario_a]
  by simp

end
